theory Spec2Isabelle
  imports Main
begin

section \<open>The websocket JSON-RPC connection of rpc/jsonrpc/server/ws_handler.go\<close>

text \<open>
  The connection object of the websocket handler is embedded as a record, its methods as
  functions that take the connection and return it updated. The two loops
  (\<open>readRoutine\<close>, \<open>writeRoutine\<close>) are embedded as one function for the loop body and
  one recursive function that runs the loop over a finite trace of what the outside
  world delivers. Blocking is a value: an operation that parks the calling goroutine
  returns \<open>None\<close>.
\<close>

subsection \<open>Go values the handler works with\<close>

text \<open>
  Go \<open>error\<close> values. The sentinels of package coretypes and the \<open>*rpctypes.RPCError\<close>
  pointer type are named in the source of \<open>readRoutine\<close>; \<open>Errorf\<close> is
  \<open>fmt.Errorf("<text>: %w", err)\<close>, the only kind of error here with an \<open>Unwrap\<close>
  method. \<open>ErrAlreadyStarted\<close> and \<open>ErrNotRunning\<close> are the lifecycle guard's two errors
  as the specification names them.
\<close>

datatype go_error =
    RPCError int string string
  | ErrZeroOrNegativeHeight
  | ErrZeroOrNegativePerPage
  | ErrPageOutOfRange
  | ErrInvalidRequest
  | ErrAlreadyStarted
  | ErrNotRunning
  | Canceled
  | DeadlineExceeded
  | Errorf string go_error
  | ErrorsNew string

fun Unwrap :: "go_error \<Rightarrow> go_error option" where
  "Unwrap (Errorf msg e) = Some e"
| "Unwrap e = None"

fun Error_text :: "go_error \<Rightarrow> string" where
  "Error_text (RPCError c m d) = m @ '': '' @ d"
| "Error_text ErrZeroOrNegativeHeight = ''height must be greater than zero''"
| "Error_text ErrZeroOrNegativePerPage = ''per-page must be greater than zero''"
| "Error_text ErrPageOutOfRange = ''page is out of range''"
| "Error_text ErrInvalidRequest = ''invalid request''"
| "Error_text ErrAlreadyStarted = ''already started''"
| "Error_text ErrNotRunning = ''not running''"
| "Error_text Canceled = ''context canceled''"
| "Error_text DeadlineExceeded = ''context deadline exceeded''"
| "Error_text (Errorf msg e) = msg @ '': '' @ Error_text e"
| "Error_text (ErrorsNew msg) = msg"

text \<open>
  A \<open>context.Context\<close> as a select statement sees it: \<open>Background\<close> has a nil
  \<open>Done\<close> channel and is never done; a cancellable context is either not done yet or
  done with its \<open>Err()\<close>.
\<close>

datatype "context" = Background | NotDone | DoneWith go_error

fun ctx_Done :: "context \<Rightarrow> bool" where
  "ctx_Done (DoneWith e) = True"
| "ctx_Done c = False"

fun ctx_Err :: "context \<Rightarrow> go_error option" where
  "ctx_Err (DoneWith e) = Some e"
| "ctx_Err c = None"

fun cancel :: "context \<Rightarrow> context" where
  "cancel NotDone = DoneWith Canceled"
| "cancel c = c"

text \<open>
  A buffered Go channel: its capacity, the values sent and not yet taken by a receiver,
  and whether a goroutine is parked in a receive on it. A send can proceed when the
  buffer has room or a receiver is parked (the only way for a channel of capacity 0);
  a send that a parked receiver takes wakes that receiver. A nil channel is \<open>None\<close>:
  a send on it never proceeds.
\<close>

record 'a chan =
  cap :: nat
  buf :: "'a list"
  recv_parked :: bool

definition can_send :: "'a chan option \<Rightarrow> bool" where
  "can_send ch = (case ch of None \<Rightarrow> False
                  | Some c \<Rightarrow> recv_parked c \<or> length (buf c) < cap c)"

definition chan_send :: "'a \<Rightarrow> 'a chan option \<Rightarrow> 'a chan option" where
  "chan_send v ch = (case ch of None \<Rightarrow> None
                     | Some c \<Rightarrow> Some (c\<lparr>buf := buf c @ [v], recv_parked := False\<rparr>))"

definition make_chan :: "nat \<Rightarrow> 'a chan" where
  "make_chan n = \<lparr>cap = n, buf = [], recv_parked = False\<rparr>"

text \<open>
  A Go \<open>select\<close>: every case is a pair of its readiness and what happens when it is
  chosen. Among the ready cases one is chosen by a pseudo-random draw \<open>rnd\<close>; with no
  ready case the \<open>default\<close> case runs when there is one (\<open>Some d\<close>), otherwise the
  goroutine parks (\<open>None\<close>).
\<close>

definition go_select :: "nat \<Rightarrow> (bool \<times> 'a) list \<Rightarrow> 'a option \<Rightarrow> 'a option" where
  "go_select rnd cases dflt =
     (let ready = map snd (filter fst cases)
      in if ready = [] then dflt else Some (ready ! (rnd mod length ready)))"

subsection \<open>JSON-RPC requests and responses\<close>

datatype jsonrpcid = JSONRPCIntID int | JSONRPCStringID string

record RPCRequest =
  ID :: "jsonrpcid option"
  Method :: string
  Params :: string

record RPCResponse =
  resp_ID :: "jsonrpcid option"
  Result :: "string option"
  Error :: "(int \<times> string \<times> string) option"

text \<open>
  Modelled from the spec: the response constructors of package rpctypes, which is not
  among the sources. A success response is \<open>{id, result}\<close>, a failure is
  \<open>{id, error: {code, message, data}}\<close>; the codes are those of the specification's
  error taxonomy (ParseError -32700, InvalidRequest -32600, MethodNotFound -32601,
  InvalidParams -32602, InternalError -32603), the message is the taxonomy's name and
  the data is the text of the cause. A ParseError has no id.
\<close>

definition NewRPCSuccessResponse :: "jsonrpcid option \<Rightarrow> string \<Rightarrow> RPCResponse" where
  "NewRPCSuccessResponse rid res = \<lparr>resp_ID = rid, Result = Some res, Error = None\<rparr>"

definition NewRPCErrorResponse ::
  "jsonrpcid option \<Rightarrow> int \<Rightarrow> string \<Rightarrow> string \<Rightarrow> RPCResponse" where
  "NewRPCErrorResponse rid code msg dat =
     \<lparr>resp_ID = rid, Result = None, Error = Some (code, msg, dat)\<rparr>"

definition RPCParseError :: "go_error \<Rightarrow> RPCResponse" where
  "RPCParseError e = NewRPCErrorResponse None (- 32700) ''ParseError'' (Error_text e)"

definition RPCInvalidRequestError :: "jsonrpcid option \<Rightarrow> go_error \<Rightarrow> RPCResponse" where
  "RPCInvalidRequestError rid e =
     NewRPCErrorResponse rid (- 32600) ''InvalidRequest'' (Error_text e)"

definition RPCMethodNotFoundError :: "jsonrpcid option \<Rightarrow> RPCResponse" where
  "RPCMethodNotFoundError rid = NewRPCErrorResponse rid (- 32601) ''MethodNotFound'' []"

definition RPCInvalidParamsError :: "jsonrpcid option \<Rightarrow> go_error \<Rightarrow> RPCResponse" where
  "RPCInvalidParamsError rid e =
     NewRPCErrorResponse rid (- 32602) ''InvalidParams'' (Error_text e)"

definition RPCInternalError :: "jsonrpcid option \<Rightarrow> go_error \<Rightarrow> RPCResponse" where
  "RPCInternalError rid e =
     NewRPCErrorResponse rid (- 32603) ''InternalError'' (Error_text e)"

definition resp_code :: "RPCResponse \<Rightarrow> int option" where
  "resp_code r = map_option fst (Error r)"

subsection \<open>Method descriptors\<close>

text \<open>
  What \<open>readRoutine\<close> hands to a handler: the request context first, then the
  bound parameters. A call through \<open>reflect.Value.Call\<close> either panics with a value
  or returns the handler's two results.
\<close>

datatype arg = ContextArg RPCRequest | ParamArg string

datatype panic_value = PanicError go_error | PanicValue string

datatype call_result = Panics panic_value | Returns string "go_error option"

record RPCFunc =
  f_Call :: "arg list \<Rightarrow> call_result"
  params_to_args :: "string \<Rightarrow> go_error + arg list"

text \<open>
  Modelled from the spec: \<open>jsonParamsToArgs\<close> and \<open>unreflectResult\<close> are not among
  the sources. Parameter binding is the externally supplied
  \<open>bind(descriptor, rawParams) -> boundArgs | bindingError\<close>; a handler yields
  \<open>(result, error)\<close>, the result being dropped when there is an error.
\<close>

definition jsonParamsToArgs :: "RPCFunc \<Rightarrow> string \<Rightarrow> go_error + arg list" where
  "jsonParamsToArgs rpcFunc raw = params_to_args rpcFunc raw"

definition unreflectResult :: "string \<Rightarrow> go_error option \<Rightarrow> string \<times> go_error option" where
  "unreflectResult res err = (case err of None \<Rightarrow> (res, None) | Some e \<Rightarrow> ([], Some e))"

subsection \<open>The connection\<close>

text \<open>
  The socket (\<open>*websocket.Conn\<close>) as the handler uses it: its remote address, the
  read limit, whether setting a deadline or writing a message fails, and the messages
  written so far. Deadlines are times and are not kept.
\<close>

datatype msg_type = TextMessage | PingMessage | PongMessage

record Conn =
  RemoteAddr :: string
  conn_readLimit :: int
  SetReadDeadline_err :: "go_error option"
  SetWriteDeadline_err :: "go_error option"
  WriteMessage_err :: "go_error option"
  written :: "(msg_type \<times> string) list"

text \<open>
  Modelled from the spec: \<open>client.RunState\<close> is not among the sources. The lifecycle
  guard has three states. \<open>Start\<close> fails with AlreadyStarted unless the state is
  Not-Started and otherwise moves to Running. \<open>Stop\<close> fails with NotRunning on a guard
  that was never started, moves a running guard to Stopped, and on a repeat call, the
  guard being Stopped already, succeeds again and leaves the state as it is (the
  recorded already-stopped result).
\<close>

datatype run_state = NotStarted | Running | Stopped

definition RunState_Start :: "run_state \<Rightarrow> go_error + run_state" where
  "RunState_Start s = (if s = NotStarted then Inr Running else Inl ErrAlreadyStarted)"

definition RunState_Stop :: "run_state \<Rightarrow> go_error + run_state" where
  "RunState_Stop s = (case s of
                        NotStarted \<Rightarrow> Inl ErrNotRunning
                      | Running \<Rightarrow> Inr Stopped
                      | Stopped \<Rightarrow> Inr Stopped)"

datatype log_level = Debug | Info | Err

text \<open>
  The fields of \<open>wsConnection\<close>. \<open>Logger\<close> is the list of entries logged so far;
  durations are in nanoseconds; \<open>writeChan\<close> and \<open>ctx\<close> are \<open>None\<close> while they
  are nil; \<open>readRoutineQuit\<close> is whether that channel has been closed; the disconnect
  callback is known by a number, \<open>None\<close> while it is nil. Two more fields record
  effects that leave the connection: \<open>disconnected\<close> lists the calls made to the
  callback, \<open>readRoutines\<close> counts the \<open>go wsc.readRoutine(ctx)\<close> statements run.
\<close>

record wsConnection =
  RunState :: run_state
  Logger :: "(log_level \<times> string) list"
  remoteAddr :: string
  baseConn :: Conn
  writeChan :: "RPCResponse chan option"
  readRoutineQuit :: bool
  funcMap :: "string \<Rightarrow> RPCFunc option"
  writeChanCapacity :: int
  writeWait :: int
  readWait :: int
  pingPeriod :: int
  readLimit :: int
  onDisconnect :: "nat option"
  ctx :: "context option"
  disconnected :: "(nat \<times> string) list"
  readRoutines :: nat

definition log :: "log_level \<Rightarrow> string \<Rightarrow> wsConnection \<Rightarrow> wsConnection" where
  "log lvl msg wsc = wsc\<lparr>Logger := Logger wsc @ [(lvl, msg)]\<rparr>"

definition defaultWSWriteChanCapacity :: int where
  "defaultWSWriteChanCapacity = 100"

definition defaultWSWriteWait :: int where
  "defaultWSWriteWait = 10 * 1000000000"

definition defaultWSReadWait :: int where
  "defaultWSReadWait = 30 * 1000000000"

definition defaultWSPingPeriod :: int where
  "defaultWSPingPeriod = (defaultWSReadWait * 9) div 10"

text \<open>The functional options a connection can be constructed with.\<close>

datatype conn_option =
    OnDisconnect nat
  | WriteWait int
  | WriteChanCapacity int
  | ReadWait int
  | PingPeriod int
  | ReadLimit int

fun apply_option :: "conn_option \<Rightarrow> wsConnection \<Rightarrow> wsConnection" where
  "apply_option (OnDisconnect cb) wsc = wsc\<lparr>onDisconnect := Some cb\<rparr>"
| "apply_option (WriteWait d) wsc = wsc\<lparr>writeWait := d\<rparr>"
| "apply_option (WriteChanCapacity n) wsc = wsc\<lparr>writeChanCapacity := n\<rparr>"
| "apply_option (ReadWait d) wsc = wsc\<lparr>readWait := d\<rparr>"
| "apply_option (PingPeriod d) wsc = wsc\<lparr>pingPeriod := d\<rparr>"
| "apply_option (ReadLimit n) wsc = wsc\<lparr>readLimit := n\<rparr>"

definition newWSConnection ::
  "Conn \<Rightarrow> (string \<Rightarrow> RPCFunc option) \<Rightarrow> conn_option list \<Rightarrow> wsConnection" where
  "newWSConnection bc fm opts =
     (let wsc = foldl (\<lambda>w opt. apply_option opt w)
                  \<lparr>RunState = NotStarted, Logger = [], remoteAddr = RemoteAddr bc,
                   baseConn = bc, writeChan = None, readRoutineQuit = False,
                   funcMap = fm, writeChanCapacity = defaultWSWriteChanCapacity,
                   writeWait = defaultWSWriteWait, readWait = defaultWSReadWait,
                   pingPeriod = defaultWSPingPeriod, readLimit = 0,
                   onDisconnect = None, ctx = None, disconnected = [],
                   readRoutines = 0\<rparr> opts
      in wsc\<lparr>baseConn := (baseConn wsc)\<lparr>conn_readLimit := readLimit wsc\<rparr>\<rparr>)"

text \<open>
  \<open>Start\<close> up to the point where both loops run: the guard, the creation of the write
  channel (\<open>make\<close> panics on a negative capacity) and the launch of \<open>readRoutine\<close>.
  The call itself then stays in \<open>writeRoutine\<close>.
\<close>

datatype start_result = StartError go_error | StartPanic | Started wsConnection

definition Start :: "wsConnection \<Rightarrow> start_result" where
  "Start wsc =
     (case RunState_Start (RunState wsc) of
        Inl err \<Rightarrow> StartError err
      | Inr rs \<Rightarrow>
          if writeChanCapacity wsc < 0 then StartPanic
          else Started (wsc\<lparr>RunState := rs,
                            writeChan := Some (make_chan (nat (writeChanCapacity wsc))),
                            readRoutines := readRoutines wsc + 1\<rparr>))"

definition Stop :: "wsConnection \<Rightarrow> go_error option \<times> wsConnection" where
  "Stop wsc =
     (case RunState_Stop (RunState wsc) of
        Inl err \<Rightarrow> (Some err, wsc)
      | Inr rs \<Rightarrow>
          (let w1 = wsc\<lparr>RunState := rs\<rparr>;
               w2 = (case onDisconnect w1 of
                       None \<Rightarrow> w1
                     | Some cb \<Rightarrow> w1\<lparr>disconnected := disconnected w1 @ [(cb, remoteAddr w1)]\<rparr>);
               w3 = (case ctx w2 of
                       None \<Rightarrow> w2
                     | Some cx \<Rightarrow> w2\<lparr>ctx := Some (cancel cx)\<rparr>)
           in (None, w3)))"

definition GetRemoteAddr :: "wsConnection \<Rightarrow> string" where
  "GetRemoteAddr wsc = remoteAddr wsc"

text \<open>
  \<open>WriteRPCResponse\<close> is a select without a default case: \<open>None\<close> is the goroutine
  parked in it. \<open>TryWriteRPCResponse\<close> is the same select with a default case.
\<close>

definition WriteRPCResponse ::
  "nat \<Rightarrow> context \<Rightarrow> wsConnection \<Rightarrow> RPCResponse \<Rightarrow> (go_error option \<times> wsConnection) option" where
  "WriteRPCResponse rnd cx wsc resp =
     go_select rnd
       [(ctx_Done cx, (ctx_Err cx, wsc)),
        (can_send (writeChan wsc), (None, wsc\<lparr>writeChan := chan_send resp (writeChan wsc)\<rparr>))]
       None"

definition TryWriteRPCResponse ::
  "nat \<Rightarrow> context \<Rightarrow> wsConnection \<Rightarrow> RPCResponse \<Rightarrow> (bool \<times> wsConnection) option" where
  "TryWriteRPCResponse rnd cx wsc resp =
     go_select rnd
       [(ctx_Done cx, (False, wsc)),
        (can_send (writeChan wsc), (True, wsc\<lparr>writeChan := chan_send resp (writeChan wsc)\<rparr>))]
       (Some (False, wsc))"

definition Context :: "wsConnection \<Rightarrow> context \<times> wsConnection" where
  "Context wsc = (case ctx wsc of
                    Some cx \<Rightarrow> (cx, wsc)
                  | None \<Rightarrow> (NotDone, wsc\<lparr>ctx := Some NotDone\<rparr>))"

subsection \<open>The inbound loop\<close>

text \<open>
  \<open>readRoutine\<close> writes with \<open>writeCtx := context.Background()\<close>.
\<close>

definition writeCtx :: "context" where
  "writeCtx = Background"

text \<open>
  What one turn of the loop finds on the socket: \<open>NextReader\<close> fails (the flag says
  whether with a normal closure), or the frame does not decode as a request, or it does.
\<close>

datatype frame =
    ReadError bool go_error
  | Undecodable go_error
  | Request RPCRequest

text \<open>
  The switch over the handler's outcome (lines 392 to 414): no error, an
  \<open>*rpctypes.RPCError\<close>, an error whose \<open>errors.Unwrap\<close> is one of the four sentinels,
  any other error.
\<close>

definition readRoutine_resp :: "jsonrpcid option \<Rightarrow> string \<times> go_error option \<Rightarrow> RPCResponse" where
  "readRoutine_resp rid res =
     (case snd res of
        None \<Rightarrow> NewRPCSuccessResponse rid (fst res)
      | Some err \<Rightarrow>
          (case err of
             RPCError c m d \<Rightarrow> NewRPCErrorResponse rid c m d
           | _ \<Rightarrow>
               if Unwrap err = Some ErrZeroOrNegativeHeight
                  \<or> Unwrap err = Some ErrZeroOrNegativePerPage
                  \<or> Unwrap err = Some ErrPageOutOfRange
                  \<or> Unwrap err = Some ErrInvalidRequest
               then RPCInvalidRequestError rid err
               else RPCInternalError rid err))"

text \<open>
  The deferred function's error: the recovered value itself when it is an error,
  otherwise \<open>fmt.Errorf("WSJSONRPC: %v", r)\<close>.
\<close>

definition recovered_err :: "panic_value \<Rightarrow> go_error" where
  "recovered_err r = (case r of PanicError e \<Rightarrow> e
                      | PanicValue v \<Rightarrow> ErrorsNew (''WSJSONRPC: '' @ v))"

definition recovered_resp :: "panic_value \<Rightarrow> RPCResponse" where
  "recovered_resp r = RPCInternalError (Some (JSONRPCIntID (- 1))) (recovered_err r)"

text \<open>
  One pass through the loop body, up to the point where it writes a response. The pass
  begins by resetting the read deadline, a failure of which is only logged. The
  result says how the pass ends: \<open>Return\<close> (the read failed), \<open>Continue\<close> (nothing to
  write), \<open>Respond\<close> (write this response, then go round again; the first argument is
  the branch that built it), \<open>Recovered\<close> (a panic reached the deferred function, which
  writes this response and then runs \<open>go wsc.readRoutine(ctx)\<close>).
\<close>

datatype branch = ParseFailure | UnknownMethod | BindFailure | Invoked

datatype body_result =
    Return wsConnection
  | Continue wsConnection
  | Respond branch RPCResponse wsConnection
  | Recovered RPCResponse wsConnection

definition reset_read_deadline :: "wsConnection \<Rightarrow> wsConnection" where
  "reset_read_deadline wsc =
     (case SetReadDeadline_err (baseConn wsc) of
        None \<Rightarrow> wsc
      | Some e \<Rightarrow> log Err ''failed to set read deadline'' wsc)"

definition readRoutine_body :: "wsConnection \<Rightarrow> frame \<Rightarrow> body_result" where
  "readRoutine_body wsc fr =
     (let w0 = reset_read_deadline wsc
      in case fr of
        ReadError normal e \<Rightarrow>
          (let w1 = (if normal then log Info ''Client closed the connection'' w0
                     else log Err ''Failed to read request'' w0);
               w2 = (case fst (Stop w1) of
                       None \<Rightarrow> snd (Stop w1)
                     | Some serr \<Rightarrow> log Err ''error closing websocket connection'' (snd (Stop w1)))
           in if readRoutineQuit w2
              then Recovered (recovered_resp (PanicError (ErrorsNew ''close of closed channel'')))
                     (log Err ''Panic in WSJSONRPC handler'' w2)
              else Return (w2\<lparr>readRoutineQuit := True\<rparr>))
      | Undecodable e \<Rightarrow>
          Respond ParseFailure (RPCParseError (Errorf ''error unmarshaling request'' e)) w0
      | Request request \<Rightarrow>
          (case ID request of
             None \<Rightarrow> Continue (log Debug ''WSJSONRPC received a notification, skipping...'' w0)
           | Some rid \<Rightarrow>
               (case funcMap w0 (Method request) of
                  None \<Rightarrow> Respond UnknownMethod (RPCMethodNotFoundError (ID request)) w0
                | Some rpcFunc \<Rightarrow>
                    (case (if Params request \<noteq> []
                           then jsonParamsToArgs rpcFunc (Params request)
                           else Inr []) of
                       Inl err \<Rightarrow>
                         Respond BindFailure
                           (RPCInvalidParamsError (ID request)
                              (Errorf ''error converting json params to arguments'' err)) w0
                     | Inr fnArgs \<Rightarrow>
                         (case f_Call rpcFunc (ContextArg request # fnArgs) of
                            Panics r \<Rightarrow>
                              Recovered (recovered_resp r)
                                (log Err ''Panic in WSJSONRPC handler'' w0)
                          | Returns result err \<Rightarrow>
                              Respond Invoked
                                (readRoutine_resp (ID request) (unreflectResult result err))
                                (log Info ''WSJSONRPC'' w0))))))"

text \<open>
  The write every branch ends with: \<open>WriteRPCResponse(writeCtx, resp)\<close>, an error of
  which is logged. \<open>None\<close> is the loop parked in that write.
\<close>

definition readRoutine_send :: "nat \<Rightarrow> wsConnection \<Rightarrow> RPCResponse \<Rightarrow> wsConnection option" where
  "readRoutine_send rnd wsc resp =
     (case WriteRPCResponse rnd writeCtx wsc resp of
        None \<Rightarrow> None
      | Some r \<Rightarrow>
          (case fst r of
             None \<Rightarrow> Some (snd r)
           | Some err \<Rightarrow> Some (log Err ''error writing RPC response'' (snd r))))"

text \<open>
  The loop over the frames the socket delivers, under the context \<open>cx\<close> given to
  \<open>Start\<close>. It ends returned, waiting for a frame that the trace does not hold, or
  parked in the write of a response (the flag says whether in the deferred function);
  the frames not yet read are returned with it. After a recovered panic the loop is
  launched again and the count of launches goes up by one.
\<close>

datatype reader_status = ReaderReturned | AwaitingFrame | Sending RPCResponse bool

definition launched :: "wsConnection \<Rightarrow> wsConnection" where
  "launched wsc = wsc\<lparr>readRoutines := readRoutines wsc + 1\<rparr>"

fun readRoutine ::
  "nat \<Rightarrow> context \<Rightarrow> wsConnection \<Rightarrow> frame list \<Rightarrow> reader_status \<times> wsConnection \<times> frame list" where
  "readRoutine rnd cx wsc [] =
     (if ctx_Done cx then (ReaderReturned, wsc, []) else (AwaitingFrame, wsc, []))"
| "readRoutine rnd cx wsc (fr # frs) =
     (if ctx_Done cx then (ReaderReturned, wsc, fr # frs)
      else case readRoutine_body wsc fr of
        Return w \<Rightarrow> (ReaderReturned, w, frs)
      | Continue w \<Rightarrow> readRoutine rnd cx w frs
      | Respond br resp w \<Rightarrow>
          (case readRoutine_send rnd w resp of
             None \<Rightarrow> (Sending resp False, w, frs)
           | Some w' \<Rightarrow> readRoutine rnd cx w' frs)
      | Recovered resp w \<Rightarrow>
          (case readRoutine_send rnd w resp of
             None \<Rightarrow> (Sending resp True, w, frs)
           | Some w' \<Rightarrow> readRoutine rnd cx (launched w') frs))"

text \<open>
  A loop parked in the write of \<open>resp\<close> tries that write again in the connection's
  later state.
\<close>

definition readRoutine_resume ::
  "nat \<Rightarrow> context \<Rightarrow> wsConnection \<Rightarrow> RPCResponse \<Rightarrow> bool \<Rightarrow> frame list
     \<Rightarrow> reader_status \<times> wsConnection \<times> frame list" where
  "readRoutine_resume rnd cx wsc resp recovering frs =
     (case readRoutine_send rnd wsc resp of
        None \<Rightarrow> (Sending resp recovering, wsc, frs)
      | Some w' \<Rightarrow> readRoutine rnd cx (if recovering then launched w' else w') frs)"

text \<open>A notification is a decoded request without an id.\<close>

fun is_notification :: "frame \<Rightarrow> bool" where
  "is_notification (Request request) = (ID request = None)"
| "is_notification fr = False"

subsection \<open>The write multiplexer\<close>

text \<open>
  The local variables of \<open>writeRoutine\<close>: the \<open>pongs\<close> channel of capacity 1 and whether
  the ping ticker's channel holds a tick. The ping handler puts a payload into \<open>pongs\<close>
  unless it is full.
\<close>

record writer =
  pongs :: "string option"
  tick :: bool

definition PingHandler :: "string \<Rightarrow> writer \<Rightarrow> writer" where
  "PingHandler m wr = (if pongs wr = None then wr\<lparr>pongs := Some m\<rparr> else wr)"

definition writeMessageWithDeadline ::
  "msg_type \<Rightarrow> string \<Rightarrow> wsConnection \<Rightarrow> go_error option \<times> wsConnection" where
  "writeMessageWithDeadline msgType msg wsc =
     (case SetWriteDeadline_err (baseConn wsc) of
        Some err \<Rightarrow> (Some err, wsc)
      | None \<Rightarrow>
          (case WriteMessage_err (baseConn wsc) of
             Some err \<Rightarrow> (Some err, wsc)
           | None \<Rightarrow>
               (None, wsc\<lparr>baseConn :=
                  (baseConn wsc)\<lparr>written := written (baseConn wsc) @ [(msgType, msg)]\<rparr>\<rparr>)))"

definition park :: "bool \<Rightarrow> wsConnection \<Rightarrow> wsConnection" where
  "park b wsc = wsc\<lparr>writeChan := map_option (\<lambda>c. c\<lparr>recv_parked := b\<rparr>) (writeChan wsc)\<rparr>"

definition can_recv :: "'a chan option \<Rightarrow> bool" where
  "can_recv ch = (case ch of None \<Rightarrow> False | Some c \<Rightarrow> buf c \<noteq> [])"

text \<open>
  The five cases of the select in \<open>writeRoutine\<close> and what each does once chosen;
  \<open>mar\<close> is \<open>json.MarshalIndent\<close>. A case that is not ready is never chosen; asked
  for one, the function answers \<open>Parked\<close>.
\<close>

datatype select_case = CtxDoneCase | ReadRoutineQuitCase | PongsCase | PingTickerCase | WriteChanCase

datatype loop_ctl = Again | Exited | Parked

definition writeRoutine_case ::
  "(RPCResponse \<Rightarrow> go_error + string) \<Rightarrow> select_case \<Rightarrow> wsConnection \<Rightarrow> writer
     \<Rightarrow> loop_ctl \<times> wsConnection \<times> writer" where
  "writeRoutine_case mar sc wsc wr =
     (case sc of
        CtxDoneCase \<Rightarrow> (Exited, wsc, wr)
      | ReadRoutineQuitCase \<Rightarrow> (Exited, wsc, wr)
      | PongsCase \<Rightarrow>
          (case pongs wr of
             None \<Rightarrow> (Parked, wsc, wr)
           | Some m \<Rightarrow>
               (case fst (writeMessageWithDeadline PongMessage m wsc) of
                  None \<Rightarrow> (Again, snd (writeMessageWithDeadline PongMessage m wsc), wr\<lparr>pongs := None\<rparr>)
                | Some err \<Rightarrow>
                    (Again,
                     log Info ''Failed to write pong (client may disconnect)''
                       (snd (writeMessageWithDeadline PongMessage m wsc)),
                     wr\<lparr>pongs := None\<rparr>)))
      | PingTickerCase \<Rightarrow>
          (case fst (writeMessageWithDeadline PingMessage [] wsc) of
             None \<Rightarrow> (Again, snd (writeMessageWithDeadline PingMessage [] wsc), wr\<lparr>tick := False\<rparr>)
           | Some err \<Rightarrow>
               (Exited,
                log Err ''Failed to write ping'' (snd (writeMessageWithDeadline PingMessage [] wsc)),
                wr\<lparr>tick := False\<rparr>))
      | WriteChanCase \<Rightarrow>
          (case writeChan wsc of
             None \<Rightarrow> (Parked, wsc, wr)
           | Some c \<Rightarrow>
               (case buf c of
                  [] \<Rightarrow> (Parked, wsc, wr)
                | msg # rest \<Rightarrow>
                    (let w1 = wsc\<lparr>writeChan := Some (c\<lparr>buf := rest\<rparr>)\<rparr>
                     in case mar msg of
                          Inl err \<Rightarrow> (Again, log Err ''Failed to marshal RPCResponse to JSON'' w1, wr)
                        | Inr jsonBytes \<Rightarrow>
                            (case fst (writeMessageWithDeadline TextMessage jsonBytes w1) of
                               None \<Rightarrow>
                                 (Again, snd (writeMessageWithDeadline TextMessage jsonBytes w1), wr)
                             | Some err \<Rightarrow>
                                 (Exited,
                                  log Err ''Failed to write response''
                                    (snd (writeMessageWithDeadline TextMessage jsonBytes w1)),
                                  wr))))))"

text \<open>
  One turn of the loop: the select among the ready cases. With none ready the goroutine
  parks, and is then a parked receiver on the write channel; a turn that runs a case
  is no longer parked.
\<close>

definition writeRoutine_select ::
  "nat \<Rightarrow> context \<Rightarrow> wsConnection \<Rightarrow> writer \<Rightarrow> select_case option" where
  "writeRoutine_select rnd cx wsc wr =
     go_select rnd
       [(ctx_Done cx, CtxDoneCase),
        (readRoutineQuit wsc, ReadRoutineQuitCase),
        (pongs wr \<noteq> None, PongsCase),
        (tick wr, PingTickerCase),
        (can_recv (writeChan wsc), WriteChanCase)]
       None"

definition writeRoutine_body ::
  "(RPCResponse \<Rightarrow> go_error + string) \<Rightarrow> nat \<Rightarrow> context \<Rightarrow> wsConnection \<Rightarrow> writer
     \<Rightarrow> loop_ctl \<times> wsConnection \<times> writer" where
  "writeRoutine_body mar rnd cx wsc wr =
     (case writeRoutine_select rnd cx wsc wr of
        None \<Rightarrow> (Parked, park True wsc, wr)
      | Some sc \<Rightarrow> writeRoutine_case mar sc (park False wsc) wr)"

text \<open>
  The loop, one turn for each draw of the trace, until it returns or parks; \<open>Again\<close>
  is the loop still running when the trace ends.
\<close>

fun writeRoutine ::
  "(RPCResponse \<Rightarrow> go_error + string) \<Rightarrow> nat list \<Rightarrow> context \<Rightarrow> wsConnection \<Rightarrow> writer
     \<Rightarrow> loop_ctl \<times> wsConnection \<times> writer" where
  "writeRoutine mar [] cx wsc wr = (Again, wsc, wr)"
| "writeRoutine mar (rnd # rnds) cx wsc wr =
     (case fst (writeRoutine_body mar rnd cx wsc wr) of
        Again \<Rightarrow> writeRoutine mar rnds cx
                   (fst (snd (writeRoutine_body mar rnd cx wsc wr)))
                   (snd (snd (writeRoutine_body mar rnd cx wsc wr)))
      | Exited \<Rightarrow> writeRoutine_body mar rnd cx wsc wr
      | Parked \<Rightarrow> writeRoutine_body mar rnd cx wsc wr)"

subsection \<open>Concrete connections for the examples\<close>

definition example_Conn :: Conn where
  "example_Conn = \<lparr>RemoteAddr = ''10.0.0.1:4000'', conn_readLimit = 0,
                    SetReadDeadline_err = None, SetWriteDeadline_err = None,
                    WriteMessage_err = None, written = []\<rparr>"

definition example_status :: RPCFunc where
  "example_status = \<lparr>f_Call = (\<lambda>args. Returns ''ok'' None),
                      params_to_args = (\<lambda>raw. Inr [ParamArg raw])\<rparr>"

definition example_crash :: RPCFunc where
  "example_crash = \<lparr>f_Call = (\<lambda>args. Panics (PanicValue ''boom'')),
                     params_to_args = (\<lambda>raw. Inr [ParamArg raw])\<rparr>"

definition example_funcMap :: "string \<Rightarrow> RPCFunc option" where
  "example_funcMap m = (if m = ''status'' then Some example_status
                        else if m = ''crash'' then Some example_crash
                        else None)"

definition example_new :: wsConnection where
  "example_new = newWSConnection example_Conn example_funcMap [OnDisconnect 7, WriteChanCapacity 1]"

definition example_started :: wsConnection where
  "example_started = example_new\<lparr>RunState := Running, writeChan := Some (make_chan 1),
                                 readRoutines := 1\<rparr>"

definition example_resp :: RPCResponse where
  "example_resp = NewRPCSuccessResponse (Some (JSONRPCIntID 1)) ''ok''"

definition example_full :: wsConnection where
  "example_full = example_started\<lparr>writeChan :=
                     Some \<lparr>cap = 1, buf = [example_resp], recv_parked = False\<rparr>\<rparr>"

definition example_with_ctx :: wsConnection where
  "example_with_ctx = snd (Context example_started)"

definition example_roomy :: wsConnection where
  "example_roomy = example_started\<lparr>writeChan := Some (make_chan 3)\<rparr>"

definition example_request :: "int \<Rightarrow> string \<Rightarrow> RPCRequest" where
  "example_request n m = \<lparr>ID = Some (JSONRPCIntID n), Method = m, Params = []\<rparr>"

definition example_notification :: RPCRequest where
  "example_notification = \<lparr>ID = None, Method = ''status'', Params = []\<rparr>"

definition example_broken :: wsConnection where
  "example_broken = example_started\<lparr>baseConn :=
                       example_Conn\<lparr>WriteMessage_err := Some (ErrorsNew ''broken pipe'')\<rparr>\<rparr>"

definition example_strict :: RPCFunc where
  "example_strict = \<lparr>f_Call = (\<lambda>args. Returns ''ok'' None),
                      params_to_args = (\<lambda>raw. Inl (ErrorsNew ''unexpected parameter''))\<rparr>"

definition example_strict_conn :: wsConnection where
  "example_strict_conn = example_roomy\<lparr>funcMap := (\<lambda>m. Some example_strict)\<rparr>"

definition example_cancelled :: wsConnection where
  "example_cancelled = snd (Stop (snd (Context example_full)))"

definition example_writer :: writer where
  "example_writer = \<lparr>pongs = Some ''p'', tick = True\<rparr>"

definition example_mar :: "RPCResponse \<Rightarrow> go_error + string" where
  "example_mar resp = (case Result resp of None \<Rightarrow> Inr ''error'' | Some res \<Rightarrow> Inr res)"

definition example_reject :: RPCFunc where
  "example_reject = \<lparr>f_Call = (\<lambda>args. Returns [] (Some (RPCError (- 32602) ''InvalidParams'' ''bad''))),
                      params_to_args = (\<lambda>raw. Inr [ParamArg raw])\<rparr>"

definition example_reject_conn :: wsConnection where
  "example_reject_conn = example_roomy\<lparr>funcMap := (\<lambda>m. Some example_reject)\<rparr>"

definition example_empty_array_request :: RPCRequest where
  "example_empty_array_request = \<lparr>ID = Some (JSONRPCIntID 5), Method = ''status'', Params = ''[]''\<rparr>"

section \<open>Properties\<close>

subsection \<open>Select and the two enqueue operations\<close>

lemma go_select_two:
  "go_select rnd [(a, x), (b, y)] d =
     (if a then (if b then Some (if rnd mod 2 = 0 then x else y) else Some x)
      else if b then Some y else d)"
proof -
  have "rnd mod 2 = 0 \<or> rnd mod 2 = 1" by presburger
  then have "[x, y] ! (rnd mod Suc (Suc 0)) = (if rnd mod 2 = 0 then x else y)"
    by (auto simp: numeral_2_eq_2)
  then show ?thesis by (simp add: go_select_def)
qed

lemma TryWriteRPCResponse_cases:
  "TryWriteRPCResponse rnd cx wsc resp =
     (if ctx_Done cx
      then (if can_send (writeChan wsc)
            then Some (if rnd mod 2 = 0 then (False, wsc)
                       else (True, wsc\<lparr>writeChan := chan_send resp (writeChan wsc)\<rparr>))
            else Some (False, wsc))
      else if can_send (writeChan wsc)
           then Some (True, wsc\<lparr>writeChan := chan_send resp (writeChan wsc)\<rparr>)
           else Some (False, wsc))"
  by (simp add: TryWriteRPCResponse_def go_select_two)

lemma WriteRPCResponse_cases:
  "WriteRPCResponse rnd cx wsc resp =
     (if ctx_Done cx
      then (if can_send (writeChan wsc)
            then Some (if rnd mod 2 = 0 then (ctx_Err cx, wsc)
                       else (None, wsc\<lparr>writeChan := chan_send resp (writeChan wsc)\<rparr>))
            else Some (ctx_Err cx, wsc))
      else if can_send (writeChan wsc)
           then Some (None, wsc\<lparr>writeChan := chan_send resp (writeChan wsc)\<rparr>)
           else None)"
  by (simp add: WriteRPCResponse_def go_select_two)

lemma ctx_Done_Err: "ctx_Done cx \<Longrightarrow> ctx_Err cx \<noteq> None"
  by (cases cx) simp_all

lemma apply_options_writeChan:
  "writeChan (foldl (\<lambda>w opt. apply_option opt w) w0 opts) = writeChan w0"
proof (induction opts arbitrary: w0)
  case Nil
  show ?case by simp
next
  case (Cons o1 os)
  show ?case by (cases o1) (simp_all add: Cons.IH)
qed

lemma newWSConnection_writeChan: "writeChan (newWSConnection bc fm opts) = None"
  by (simp add: newWSConnection_def Let_def apply_options_writeChan)

lemma example_new_eq:
  "example_new =
     \<lparr>RunState = NotStarted, Logger = [], remoteAddr = ''10.0.0.1:4000'',
      baseConn = example_Conn, writeChan = None, readRoutineQuit = False,
      funcMap = example_funcMap, writeChanCapacity = 1,
      writeWait = defaultWSWriteWait, readWait = defaultWSReadWait,
      pingPeriod = defaultWSPingPeriod, readLimit = 0,
      onDisconnect = Some 7, ctx = None, disconnected = [], readRoutines = 0\<rparr>"
  by (simp add: example_new_def newWSConnection_def example_Conn_def)

lemma Start_example_new: "Start example_new = Started example_started"
  by (simp add: Start_def RunState_Start_def example_started_def example_new_eq make_chan_def)

text \<open>
  Claim C8, as amended. \<open>TryWriteRPCResponse\<close> never parks. It answers false and
  leaves the connection as it is when the write channel cannot take a value, which is
  the case when the channel is at capacity with no receiver parked on it. When the
  channel can take a value and the context is not done, it enqueues the response and
  answers true. When the channel can take a value and the context is done as well, both
  cases of the select are ready and the draw decides: draw 0 answers false, draw 1
  enqueues and answers true. \<open>WriteRPCResponse\<close> is parked exactly while the channel
  cannot take a value and the context is not done; with only the channel ready it
  enqueues and returns no error, with only the context done it returns the context's
  error, with both ready the draw decides. To enqueue is to append the response to the
  values the channel holds.
\<close>

theorem C8_enqueue_outcomes:
  "TryWriteRPCResponse rnd cx wsc resp \<noteq> None
   \<and> (\<not> can_send (writeChan wsc) \<longrightarrow> TryWriteRPCResponse rnd cx wsc resp = Some (False, wsc))
   \<and> (\<forall>c. writeChan wsc = Some c \<and> cap c \<le> length (buf c) \<and> \<not> recv_parked c
          \<longrightarrow> TryWriteRPCResponse rnd cx wsc resp = Some (False, wsc))
   \<and> (can_send (writeChan wsc) \<and> \<not> ctx_Done cx
          \<longrightarrow> TryWriteRPCResponse rnd cx wsc resp
               = Some (True, wsc\<lparr>writeChan := chan_send resp (writeChan wsc)\<rparr>))
   \<and> (can_send (writeChan wsc) \<and> ctx_Done cx
          \<longrightarrow> TryWriteRPCResponse 0 cx wsc resp = Some (False, wsc)
              \<and> TryWriteRPCResponse 1 cx wsc resp
                  = Some (True, wsc\<lparr>writeChan := chan_send resp (writeChan wsc)\<rparr>))
   \<and> (WriteRPCResponse rnd cx wsc resp = None
          \<longleftrightarrow> \<not> can_send (writeChan wsc) \<and> \<not> ctx_Done cx)
   \<and> (can_send (writeChan wsc) \<and> \<not> ctx_Done cx
          \<longrightarrow> WriteRPCResponse rnd cx wsc resp
               = Some (None, wsc\<lparr>writeChan := chan_send resp (writeChan wsc)\<rparr>))
   \<and> (\<not> can_send (writeChan wsc) \<and> ctx_Done cx
          \<longrightarrow> WriteRPCResponse rnd cx wsc resp = Some (ctx_Err cx, wsc) \<and> ctx_Err cx \<noteq> None)
   \<and> (can_send (writeChan wsc) \<and> ctx_Done cx
          \<longrightarrow> WriteRPCResponse 0 cx wsc resp = Some (ctx_Err cx, wsc)
              \<and> WriteRPCResponse 1 cx wsc resp
                  = Some (None, wsc\<lparr>writeChan := chan_send resp (writeChan wsc)\<rparr>))
   \<and> (\<forall>c. writeChan wsc = Some c
          \<longrightarrow> chan_send resp (writeChan wsc) = Some (c\<lparr>buf := buf c @ [resp], recv_parked := False\<rparr>))"
proof -
  let ?enq = "wsc\<lparr>writeChan := chan_send resp (writeChan wsc)\<rparr>"
  have c1: "TryWriteRPCResponse rnd cx wsc resp \<noteq> None"
    by (cases "ctx_Done cx"; cases "can_send (writeChan wsc)")
       (simp_all add: TryWriteRPCResponse_cases del: not_None_eq)
  have c2: "\<not> can_send (writeChan wsc) \<longrightarrow> TryWriteRPCResponse rnd cx wsc resp = Some (False, wsc)"
    by (simp add: TryWriteRPCResponse_cases)
  have c3: "\<forall>c. writeChan wsc = Some c \<and> cap c \<le> length (buf c) \<and> \<not> recv_parked c
          \<longrightarrow> TryWriteRPCResponse rnd cx wsc resp = Some (False, wsc)"
  proof (intro allI impI)
    fix c assume "writeChan wsc = Some c \<and> cap c \<le> length (buf c) \<and> \<not> recv_parked c"
    then have "\<not> can_send (writeChan wsc)" by (simp add: can_send_def)
    then show "TryWriteRPCResponse rnd cx wsc resp = Some (False, wsc)"
      by (simp add: TryWriteRPCResponse_cases)
  qed
  have c4: "can_send (writeChan wsc) \<and> \<not> ctx_Done cx
          \<longrightarrow> TryWriteRPCResponse rnd cx wsc resp = Some (True, ?enq)"
    by (simp add: TryWriteRPCResponse_cases)
  have c5: "can_send (writeChan wsc) \<and> ctx_Done cx
          \<longrightarrow> TryWriteRPCResponse 0 cx wsc resp = Some (False, wsc)
              \<and> TryWriteRPCResponse 1 cx wsc resp = Some (True, ?enq)"
    by (simp add: TryWriteRPCResponse_cases)
  have c6: "WriteRPCResponse rnd cx wsc resp = None
          \<longleftrightarrow> \<not> can_send (writeChan wsc) \<and> \<not> ctx_Done cx"
    by (simp add: WriteRPCResponse_cases)
  have c7: "can_send (writeChan wsc) \<and> \<not> ctx_Done cx
          \<longrightarrow> WriteRPCResponse rnd cx wsc resp = Some (None, ?enq)"
    by (simp add: WriteRPCResponse_cases)
  have c8: "\<not> can_send (writeChan wsc) \<and> ctx_Done cx
          \<longrightarrow> WriteRPCResponse rnd cx wsc resp = Some (ctx_Err cx, wsc) \<and> ctx_Err cx \<noteq> None"
    by (simp add: WriteRPCResponse_cases ctx_Done_Err)
  have c9: "can_send (writeChan wsc) \<and> ctx_Done cx
          \<longrightarrow> WriteRPCResponse 0 cx wsc resp = Some (ctx_Err cx, wsc)
              \<and> WriteRPCResponse 1 cx wsc resp = Some (None, ?enq)"
    by (simp add: WriteRPCResponse_cases)
  have c10: "\<forall>c. writeChan wsc = Some c
          \<longrightarrow> chan_send resp (writeChan wsc) = Some (c\<lparr>buf := buf c @ [resp], recv_parked := False\<rparr>)"
    by (simp add: chan_send_def)
  from c1 c2 c3 c4 c5 c6 c7 c8 c9 c10 show ?thesis by (intro conjI)
qed

lemma example_started_chan:
  "writeChan example_started = Some \<lparr>cap = 1, buf = [], recv_parked = False\<rparr>"
  by (simp add: example_started_def make_chan_def)

lemma example_full_chan:
  "writeChan example_full = Some \<lparr>cap = 1, buf = [example_resp], recv_parked = False\<rparr>"
  by (simp add: example_full_def)

text \<open>
  The theorem at a started connection of capacity 1, with the queue empty and full.
\<close>

theorem C8_enqueue_outcomes_witness:
  "TryWriteRPCResponse 5 NotDone example_full example_resp = Some (False, example_full)
   \<and> TryWriteRPCResponse 5 NotDone example_started example_resp = Some (True, example_full)
   \<and> WriteRPCResponse 5 NotDone example_full example_resp = None
   \<and> WriteRPCResponse 5 (DoneWith Canceled) example_full example_resp
       = Some (Some Canceled, example_full)
   \<and> WriteRPCResponse 5 NotDone example_started example_resp = Some (None, example_full)"
  using C8_enqueue_outcomes [of 5 NotDone example_full example_resp]
        C8_enqueue_outcomes [of 5 NotDone example_started example_resp]
        C8_enqueue_outcomes [of 5 "DoneWith Canceled" example_full example_resp]
  by (simp add: example_started_chan example_full_chan can_send_def chan_send_def example_full_def)

text \<open>
  Claim C8 as stated fails: with the context already cancelled and room in the queue,
  \<open>TryWriteRPCResponse\<close> can enqueue the response and answer true.
\<close>

theorem C8_cancelled_context_counterexample:
  "ctx_Done (DoneWith Canceled)
   \<and> TryWriteRPCResponse 1 (DoneWith Canceled) example_started example_resp
       = Some (True, example_full)"
  by (simp add: TryWriteRPCResponse_cases example_started_chan can_send_def chan_send_def
      example_full_def)

subsection \<open>The write channel before Start\<close>

lemma Stop_writeChan: "writeChan (snd (Stop wsc)) = writeChan wsc"
  by (simp add: Stop_def Let_def split: sum.splits option.splits)

lemma Context_writeChan: "writeChan (snd (Context wsc)) = writeChan wsc"
  by (simp add: Context_def split: option.splits)

lemma nil_chan_cannot_send: "\<not> can_send None"
  by (simp add: can_send_def)

lemma WriteRPCResponse_nil:
  "writeChan wsc = None \<Longrightarrow>
   WriteRPCResponse rnd cx wsc resp = (case cx of DoneWith e \<Rightarrow> Some (Some e, wsc) | _ \<Rightarrow> None)"
  by (cases cx) (simp_all add: WriteRPCResponse_cases nil_chan_cannot_send)

lemma TryWriteRPCResponse_nil:
  "writeChan wsc = None \<Longrightarrow> TryWriteRPCResponse rnd cx wsc resp = Some (False, wsc)"
  by (simp add: TryWriteRPCResponse_cases nil_chan_cannot_send)

lemma Start_writeChan:
  "Start wsc = Started w \<Longrightarrow> writeChan w = Some (make_chan (nat (writeChanCapacity wsc)))"
  by (auto simp: Start_def split: sum.splits if_splits)

text \<open>
  Claim C9. A connection as \<open>newWSConnection\<close> builds it, whatever its options, has a
  nil write channel. On it, and on any connection whose write channel is nil,
  \<open>TryWriteRPCResponse\<close> answers false and changes nothing, and \<open>WriteRPCResponse\<close>
  never succeeds: it is parked while the context is not done and returns the context's
  error once it is. \<open>Stop\<close> and \<open>Context\<close> leave the channel nil; a \<open>Start\<close> that
  succeeds is what creates it, with the configured capacity.
\<close>

theorem C9_no_queue_before_Start:
  "writeChan (newWSConnection bc fm opts) = None
   \<and> TryWriteRPCResponse rnd cx (newWSConnection bc fm opts) resp
       = Some (False, newWSConnection bc fm opts)
   \<and> WriteRPCResponse rnd cx (newWSConnection bc fm opts) resp
       = (case cx of DoneWith e \<Rightarrow> Some (Some e, newWSConnection bc fm opts) | _ \<Rightarrow> None)
   \<and> (writeChan wsc = None \<longrightarrow>
         TryWriteRPCResponse rnd cx wsc resp = Some (False, wsc)
         \<and> WriteRPCResponse rnd cx wsc resp
             = (case cx of DoneWith e \<Rightarrow> Some (Some e, wsc) | _ \<Rightarrow> None)
         \<and> writeChan (snd (Stop wsc)) = None
         \<and> writeChan (snd (Context wsc)) = None)
   \<and> (\<forall>w. Start wsc = Started w \<longrightarrow> writeChan w = Some (make_chan (nat (writeChanCapacity wsc))))"
proof -
  let ?new = "newWSConnection bc fm opts"
  have n: "writeChan ?new = None" by (rule newWSConnection_writeChan)
  have a: "TryWriteRPCResponse rnd cx ?new resp = Some (False, ?new)"
    by (rule TryWriteRPCResponse_nil [OF n])
  have b: "WriteRPCResponse rnd cx ?new resp
             = (case cx of DoneWith e \<Rightarrow> Some (Some e, ?new) | _ \<Rightarrow> None)"
    by (rule WriteRPCResponse_nil [OF n])
  have c: "writeChan wsc = None \<longrightarrow>
         TryWriteRPCResponse rnd cx wsc resp = Some (False, wsc)
         \<and> WriteRPCResponse rnd cx wsc resp
             = (case cx of DoneWith e \<Rightarrow> Some (Some e, wsc) | _ \<Rightarrow> None)
         \<and> writeChan (snd (Stop wsc)) = None
         \<and> writeChan (snd (Context wsc)) = None"
    by (simp add: TryWriteRPCResponse_nil WriteRPCResponse_nil Stop_writeChan Context_writeChan)
  have d: "\<forall>w. Start wsc = Started w \<longrightarrow> writeChan w = Some (make_chan (nat (writeChanCapacity wsc)))"
    by (simp add: Start_writeChan)
  from n a b c d show ?thesis by (intro conjI)
qed

text \<open>
  The theorem at a connection built with two options, before and after \<open>Start\<close>.
\<close>

theorem C9_no_queue_before_Start_witness:
  "TryWriteRPCResponse 3 NotDone example_new example_resp = Some (False, example_new)
   \<and> WriteRPCResponse 3 NotDone example_new example_resp = None
   \<and> WriteRPCResponse 3 (DoneWith Canceled) example_new example_resp
       = Some (Some Canceled, example_new)
   \<and> Start example_new = Started example_started
   \<and> writeChan example_started = Some (make_chan 1)"
proof -
  note t1 = C9_no_queue_before_Start
          [of example_Conn example_funcMap "[OnDisconnect 7, WriteChanCapacity 1]"
              3 NotDone example_resp example_new, folded example_new_def]
  note t2 = C9_no_queue_before_Start
          [of example_Conn example_funcMap "[OnDisconnect 7, WriteChanCapacity 1]"
              3 "DoneWith Canceled" example_resp example_new, folded example_new_def]
  have c: "writeChanCapacity example_new = 1" by (simp add: example_new_eq)
  from t1 t2 show ?thesis by (simp add: Start_example_new c)
qed

subsection \<open>Stop\<close>

lemma example_with_ctx_eq: "example_with_ctx = example_started\<lparr>ctx := Some NotDone\<rparr>"
  by (simp add: example_with_ctx_def Context_def example_started_def example_new_eq)









subsection \<open>The inbound loop, branch by branch\<close>

lemma log_fields:
  "writeChan (log lvl msg wsc) = writeChan wsc"
  "funcMap (log lvl msg wsc) = funcMap wsc"
  "baseConn (log lvl msg wsc) = baseConn wsc"
  "readRoutines (log lvl msg wsc) = readRoutines wsc"
  "Logger (log lvl msg wsc) = Logger wsc @ [(lvl, msg)]"
  "(log lvl msg wsc)\<lparr>Logger := l\<rparr> = wsc\<lparr>Logger := l\<rparr>"
  by (simp_all add: log_def)

lemma reset_read_deadline_fields:
  "writeChan (reset_read_deadline wsc) = writeChan wsc"
  "funcMap (reset_read_deadline wsc) = funcMap wsc"
  "baseConn (reset_read_deadline wsc) = baseConn wsc"
  "readRoutines (reset_read_deadline wsc) = readRoutines wsc"
  "(reset_read_deadline wsc)\<lparr>Logger := l\<rparr> = wsc\<lparr>Logger := l\<rparr>"
  by (simp_all add: reset_read_deadline_def log_def split: option.splits)

lemma readRoutine_send_eq:
  "readRoutine_send rnd wsc resp =
     (if can_send (writeChan wsc)
      then Some (wsc\<lparr>writeChan := chan_send resp (writeChan wsc)\<rparr>) else None)"
  by (simp add: readRoutine_send_def WriteRPCResponse_cases writeCtx_def)

lemma body_notification:
  "ID request = None \<Longrightarrow>
   readRoutine_body wsc (Request request)
     = Continue (log Debug ''WSJSONRPC received a notification, skipping...''
                  (reset_read_deadline wsc))"
  by (simp add: readRoutine_body_def)

lemma body_unknown_method:
  "ID request = Some rid \<Longrightarrow> funcMap wsc (Method request) = None \<Longrightarrow>
   readRoutine_body wsc (Request request)
     = Respond UnknownMethod (RPCMethodNotFoundError (Some rid)) (reset_read_deadline wsc)"
  by (simp add: readRoutine_body_def reset_read_deadline_fields)

lemma body_bind_failure:
  "ID request = Some rid \<Longrightarrow> funcMap wsc (Method request) = Some rpcFunc \<Longrightarrow>
   Params request \<noteq> [] \<Longrightarrow> jsonParamsToArgs rpcFunc (Params request) = Inl err \<Longrightarrow>
   readRoutine_body wsc (Request request)
     = Respond BindFailure
         (RPCInvalidParamsError (Some rid)
            (Errorf ''error converting json params to arguments'' err))
         (reset_read_deadline wsc)"
  by (simp add: readRoutine_body_def reset_read_deadline_fields)

lemma body_call:
  "ID request = Some rid \<Longrightarrow> funcMap wsc (Method request) = Some rpcFunc \<Longrightarrow>
   (if Params request \<noteq> [] then jsonParamsToArgs rpcFunc (Params request) else Inr [])
     = Inr fnArgs \<Longrightarrow>
   readRoutine_body wsc (Request request)
     = (case f_Call rpcFunc (ContextArg request # fnArgs) of
          Panics r \<Rightarrow>
            Recovered (recovered_resp r)
              (log Err ''Panic in WSJSONRPC handler'' (reset_read_deadline wsc))
        | Returns result err \<Rightarrow>
            Respond Invoked (readRoutine_resp (Some rid) (unreflectResult result err))
              (log Info ''WSJSONRPC'' (reset_read_deadline wsc)))"
  by (simp add: readRoutine_body_def reset_read_deadline_fields Let_def
      split: call_result.splits)

lemma readRoutine_Continue:
  "\<not> ctx_Done cx \<Longrightarrow> readRoutine_body wsc fr = Continue w \<Longrightarrow>
   readRoutine rnd cx wsc (fr # frs) = readRoutine rnd cx w frs"
  by simp

lemma readRoutine_Respond:
  "\<not> ctx_Done cx \<Longrightarrow> readRoutine_body wsc fr = Respond br resp w \<Longrightarrow>
   readRoutine rnd cx wsc (fr # frs)
     = (if can_send (writeChan w)
        then readRoutine rnd cx (w\<lparr>writeChan := chan_send resp (writeChan w)\<rparr>) frs
        else (Sending resp False, w, frs))"
  by (simp add: readRoutine_send_eq)

lemma readRoutine_Recovered:
  "\<not> ctx_Done cx \<Longrightarrow> readRoutine_body wsc fr = Recovered resp w \<Longrightarrow>
   readRoutine rnd cx wsc (fr # frs)
     = (if can_send (writeChan w)
        then readRoutine rnd cx (launched (w\<lparr>writeChan := chan_send resp (writeChan w)\<rparr>)) frs
        else (Sending resp True, w, frs))"
  by (simp add: readRoutine_send_eq)

lemma readRoutine_resume_eq:
  "readRoutine_resume rnd cx wsc resp recovering frs
     = (if can_send (writeChan wsc)
        then readRoutine rnd cx
               (if recovering then launched (wsc\<lparr>writeChan := chan_send resp (writeChan wsc)\<rparr>)
                else wsc\<lparr>writeChan := chan_send resp (writeChan wsc)\<rparr>) frs
        else (Sending resp recovering, wsc, frs))"
  by (simp add: readRoutine_resume_def readRoutine_send_eq)

declare readRoutine.simps(2) [simp del]

lemma resp_code_simps:
  "resp_code (NewRPCErrorResponse rid c m d) = Some c"
  "resp_code (NewRPCSuccessResponse rid res) = None"
  "resp_code (RPCParseError e) = Some (- 32700)"
  "resp_code (RPCInvalidRequestError rid e) = Some (- 32600)"
  "resp_code (RPCMethodNotFoundError rid) = Some (- 32601)"
  "resp_code (RPCInvalidParamsError rid e) = Some (- 32602)"
  "resp_code (RPCInternalError rid e) = Some (- 32603)"
  by (simp_all add: resp_code_def NewRPCErrorResponse_def NewRPCSuccessResponse_def
      RPCParseError_def RPCInvalidRequestError_def RPCMethodNotFoundError_def
      RPCInvalidParamsError_def RPCInternalError_def)

lemma resp_ID_simps:
  "resp_ID (NewRPCErrorResponse rid c m d) = rid"
  "resp_ID (NewRPCSuccessResponse rid res) = rid"
  "resp_ID (RPCParseError e) = None"
  "resp_ID (RPCInvalidRequestError rid e) = rid"
  "resp_ID (RPCMethodNotFoundError rid) = rid"
  "resp_ID (RPCInvalidParamsError rid e) = rid"
  "resp_ID (RPCInternalError rid e) = rid"
  by (simp_all add: NewRPCErrorResponse_def NewRPCSuccessResponse_def
      RPCParseError_def RPCInvalidRequestError_def RPCMethodNotFoundError_def
      RPCInvalidParamsError_def RPCInternalError_def)

subsection \<open>Notifications\<close>

lemma notifications_only_log:
  "\<forall>fr \<in> set frs. is_notification fr \<Longrightarrow> \<not> ctx_Done cx \<Longrightarrow>
   fst (readRoutine rnd cx wsc frs) = AwaitingFrame
   \<and> (fst (snd (readRoutine rnd cx wsc frs)))\<lparr>Logger := Logger wsc\<rparr> = wsc
   \<and> length (Logger (fst (snd (readRoutine rnd cx wsc frs)))) \<ge> length (Logger wsc) + length frs"
proof (induction frs arbitrary: wsc)
  case Nil
  then show ?case by simp
next
  case (Cons fr frs)
  from Cons.prems obtain request where fr: "fr = Request request" and nid: "ID request = None"
    by (cases fr) auto
  let ?w = "log Debug ''WSJSONRPC received a notification, skipping...''
              (reset_read_deadline wsc)"
  have step: "readRoutine rnd cx wsc (fr # frs) = readRoutine rnd cx ?w frs"
    using readRoutine_Continue [OF Cons.prems(2) body_notification [OF nid, of wsc]]
    by (simp add: fr)
  have rest: "\<forall>fr \<in> set frs. is_notification fr" using Cons.prems(1) by simp
  note ih = Cons.IH [OF rest Cons.prems(2), of ?w]
  have l: "?w\<lparr>Logger := Logger wsc\<rparr> = wsc"
    by (simp add: log_fields reset_read_deadline_fields)
  have ll: "length (Logger ?w) \<ge> length (Logger wsc) + 1"
    by (simp add: log_fields reset_read_deadline_def split: option.splits)
  have a: "fst (readRoutine rnd cx wsc (fr # frs)) = AwaitingFrame"
    using ih by (simp only: step)
  have "(fst (snd (readRoutine rnd cx ?w frs)))\<lparr>Logger := Logger wsc\<rparr>
          = ((fst (snd (readRoutine rnd cx ?w frs)))\<lparr>Logger := Logger ?w\<rparr>)\<lparr>Logger := Logger wsc\<rparr>"
    by simp
  also have "\<dots> = ?w\<lparr>Logger := Logger wsc\<rparr>" using ih by simp
  finally have b: "(fst (snd (readRoutine rnd cx wsc (fr # frs))))\<lparr>Logger := Logger wsc\<rparr> = wsc"
    using l by (simp only: step)
  have c: "length (Logger (fst (snd (readRoutine rnd cx wsc (fr # frs)))))
             \<ge> length (Logger wsc) + length (fr # frs)"
    using ih ll by (simp only: step) simp
  from a b c show ?case by blast
qed

text \<open>
  Claim C2. For a decoded request without an id the loop body logs and continues: it
  asks for no write, and the connection it continues with has the write channel and the
  socket it had. Run over frames that are all notifications, the loop ends waiting for
  the next frame, with one log entry or more for each frame and everything but the log
  as it was: nothing was put on the write channel, nothing written to the socket.
\<close>

theorem C2_notification_not_answered:
  "(ID request = None \<longrightarrow>
      readRoutine_body wsc (Request request)
        = Continue (log Debug ''WSJSONRPC received a notification, skipping...''
                     (reset_read_deadline wsc))
      \<and> (\<not> ctx_Done cx \<longrightarrow>
            readRoutine rnd cx wsc (Request request # frs)
              = readRoutine rnd cx
                  (log Debug ''WSJSONRPC received a notification, skipping...''
                     (reset_read_deadline wsc)) frs))
   \<and> writeChan (log Debug ''WSJSONRPC received a notification, skipping...''
                  (reset_read_deadline wsc)) = writeChan wsc
   \<and> baseConn (log Debug ''WSJSONRPC received a notification, skipping...''
                  (reset_read_deadline wsc)) = baseConn wsc
   \<and> ((\<forall>fr \<in> set frs. is_notification fr) \<and> \<not> ctx_Done cx \<longrightarrow>
        fst (readRoutine rnd cx wsc frs) = AwaitingFrame
        \<and> (fst (snd (readRoutine rnd cx wsc frs)))\<lparr>Logger := Logger wsc\<rparr> = wsc
        \<and> writeChan (fst (snd (readRoutine rnd cx wsc frs))) = writeChan wsc
        \<and> written (baseConn (fst (snd (readRoutine rnd cx wsc frs)))) = written (baseConn wsc)
        \<and> length (Logger (fst (snd (readRoutine rnd cx wsc frs))))
             \<ge> length (Logger wsc) + length frs)"
proof -
  let ?w = "log Debug ''WSJSONRPC received a notification, skipping...''
              (reset_read_deadline wsc)"
  have a: "ID request = None \<longrightarrow>
      readRoutine_body wsc (Request request) = Continue ?w
      \<and> (\<not> ctx_Done cx \<longrightarrow>
            readRoutine rnd cx wsc (Request request # frs) = readRoutine rnd cx ?w frs)"
    by (simp add: body_notification readRoutine_Continue)
  have b: "writeChan ?w = writeChan wsc" "baseConn ?w = baseConn wsc"
    by (simp_all add: log_fields reset_read_deadline_fields)
  have c: "(\<forall>fr \<in> set frs. is_notification fr) \<and> \<not> ctx_Done cx \<longrightarrow>
        fst (readRoutine rnd cx wsc frs) = AwaitingFrame
        \<and> (fst (snd (readRoutine rnd cx wsc frs)))\<lparr>Logger := Logger wsc\<rparr> = wsc
        \<and> writeChan (fst (snd (readRoutine rnd cx wsc frs))) = writeChan wsc
        \<and> written (baseConn (fst (snd (readRoutine rnd cx wsc frs)))) = written (baseConn wsc)
        \<and> length (Logger (fst (snd (readRoutine rnd cx wsc frs))))
             \<ge> length (Logger wsc) + length frs"
  proof
    assume h: "(\<forall>fr \<in> set frs. is_notification fr) \<and> \<not> ctx_Done cx"
    let ?r = "fst (snd (readRoutine rnd cx wsc frs))"
    from h have n: "fst (readRoutine rnd cx wsc frs) = AwaitingFrame
       \<and> ?r\<lparr>Logger := Logger wsc\<rparr> = wsc
       \<and> length (Logger ?r) \<ge> length (Logger wsc) + length frs"
      using notifications_only_log [of frs cx rnd wsc] by blast
    then have e: "?r\<lparr>Logger := Logger wsc\<rparr> = wsc" by blast
    have "writeChan ?r = writeChan (?r\<lparr>Logger := Logger wsc\<rparr>)" by simp
    then have w: "writeChan ?r = writeChan wsc" by (simp only: e)
    have "baseConn ?r = baseConn (?r\<lparr>Logger := Logger wsc\<rparr>)" by simp
    then have bc: "written (baseConn ?r) = written (baseConn wsc)" by (simp only: e)
    from n w bc show "fst (readRoutine rnd cx wsc frs) = AwaitingFrame
        \<and> ?r\<lparr>Logger := Logger wsc\<rparr> = wsc
        \<and> writeChan ?r = writeChan wsc
        \<and> written (baseConn ?r) = written (baseConn wsc)
        \<and> length (Logger ?r) \<ge> length (Logger wsc) + length frs"
      by blast
  qed
  from a b c show ?thesis by (intro conjI)
qed

lemma example_started_eq:
  "example_started =
     \<lparr>RunState = Running, Logger = [], remoteAddr = ''10.0.0.1:4000'',
      baseConn = example_Conn, writeChan = Some \<lparr>cap = 1, buf = [], recv_parked = False\<rparr>,
      readRoutineQuit = False,
      funcMap = example_funcMap, writeChanCapacity = 1,
      writeWait = defaultWSWriteWait, readWait = defaultWSReadWait,
      pingPeriod = defaultWSPingPeriod, readLimit = 0,
      onDisconnect = Some 7, ctx = None, disconnected = [], readRoutines = 1\<rparr>"
  by (simp add: example_started_def example_new_eq make_chan_def)

lemma example_no_read_deadline_error:
  "reset_read_deadline example_started = example_started"
  "reset_read_deadline example_full = example_full"
  "reset_read_deadline example_roomy = example_roomy"
  "reset_read_deadline example_with_ctx = example_with_ctx"
  by (simp_all add: reset_read_deadline_def example_full_def example_roomy_def
      example_with_ctx_eq example_started_eq example_Conn_def)

text \<open>
  The theorem at a started connection whose queue is full, for two notifications.
\<close>

theorem C2_notification_not_answered_witness:
  "ID example_notification = None
   \<and> readRoutine_body example_full (Request example_notification)
       = Continue (log Debug ''WSJSONRPC received a notification, skipping...'' example_full)
   \<and> fst (readRoutine 0 NotDone example_full
             [Request example_notification, Request example_notification]) = AwaitingFrame
   \<and> writeChan (fst (snd (readRoutine 0 NotDone example_full
             [Request example_notification, Request example_notification])))
       = writeChan example_full"
proof -
  have n: "ID example_notification = None" by (simp add: example_notification_def)
  have f: "\<forall>fr \<in> set [Request example_notification, Request example_notification].
             is_notification fr"
    by (simp add: n)
  have d: "\<not> ctx_Done NotDone" by simp
  from C2_notification_not_answered
         [of example_notification example_full NotDone 0
             "[Request example_notification, Request example_notification]"] n f d
  show ?thesis by (simp only: example_no_read_deadline_error) blast
qed

subsection \<open>Unknown methods\<close>

text \<open>
  Claim C7. For a request with an id whose method is not in the registry the loop body
  asks for the write of a MethodNotFound response, which has code -32601 and the
  request's id. When the write channel can take it the response is appended there and
  the loop goes on with the next frame; when it cannot, the loop is parked in that
  write.
\<close>

theorem C7_unknown_method:
  "ID request = Some rid \<and> funcMap wsc (Method request) = None \<longrightarrow>
     readRoutine_body wsc (Request request)
       = Respond UnknownMethod (RPCMethodNotFoundError (Some rid)) (reset_read_deadline wsc)
     \<and> resp_code (RPCMethodNotFoundError (Some rid)) = Some (- 32601)
     \<and> resp_ID (RPCMethodNotFoundError (Some rid)) = Some rid
     \<and> (\<not> ctx_Done cx \<and> can_send (writeChan wsc) \<longrightarrow>
           readRoutine rnd cx wsc (Request request # frs)
             = readRoutine rnd cx
                 ((reset_read_deadline wsc)
                    \<lparr>writeChan := chan_send (RPCMethodNotFoundError (Some rid)) (writeChan wsc)\<rparr>)
                 frs)
     \<and> (\<not> ctx_Done cx \<and> \<not> can_send (writeChan wsc) \<longrightarrow>
           readRoutine rnd cx wsc (Request request # frs)
             = (Sending (RPCMethodNotFoundError (Some rid)) False, reset_read_deadline wsc, frs))"
proof
  assume h: "ID request = Some rid \<and> funcMap wsc (Method request) = None"
  then have b: "readRoutine_body wsc (Request request)
       = Respond UnknownMethod (RPCMethodNotFoundError (Some rid)) (reset_read_deadline wsc)"
    by (simp add: body_unknown_method)
  have c: "\<not> ctx_Done cx \<and> can_send (writeChan wsc) \<longrightarrow>
           readRoutine rnd cx wsc (Request request # frs)
             = readRoutine rnd cx
                 ((reset_read_deadline wsc)
                    \<lparr>writeChan := chan_send (RPCMethodNotFoundError (Some rid)) (writeChan wsc)\<rparr>)
                 frs"
    using readRoutine_Respond [OF _ b, of cx rnd frs]
    by (simp add: reset_read_deadline_fields)
  have d: "\<not> ctx_Done cx \<and> \<not> can_send (writeChan wsc) \<longrightarrow>
           readRoutine rnd cx wsc (Request request # frs)
             = (Sending (RPCMethodNotFoundError (Some rid)) False, reset_read_deadline wsc, frs)"
    using readRoutine_Respond [OF _ b, of cx rnd frs]
    by (simp add: reset_read_deadline_fields)
  from b c d show "readRoutine_body wsc (Request request)
       = Respond UnknownMethod (RPCMethodNotFoundError (Some rid)) (reset_read_deadline wsc)
     \<and> resp_code (RPCMethodNotFoundError (Some rid)) = Some (- 32601)
     \<and> resp_ID (RPCMethodNotFoundError (Some rid)) = Some rid
     \<and> (\<not> ctx_Done cx \<and> can_send (writeChan wsc) \<longrightarrow>
           readRoutine rnd cx wsc (Request request # frs)
             = readRoutine rnd cx
                 ((reset_read_deadline wsc)
                    \<lparr>writeChan := chan_send (RPCMethodNotFoundError (Some rid)) (writeChan wsc)\<rparr>)
                 frs)
     \<and> (\<not> ctx_Done cx \<and> \<not> can_send (writeChan wsc) \<longrightarrow>
           readRoutine rnd cx wsc (Request request # frs)
             = (Sending (RPCMethodNotFoundError (Some rid)) False, reset_read_deadline wsc, frs))"
    by (simp add: resp_code_simps resp_ID_simps)
qed

lemma example_funcMap_simps:
  "example_funcMap ''status'' = Some example_status"
  "example_funcMap ''crash'' = Some example_crash"
  "example_funcMap ''nosuch'' = None"
  by (simp_all add: example_funcMap_def)

lemma example_roomy_fields:
  "writeChan example_roomy = Some \<lparr>cap = 3, buf = [], recv_parked = False\<rparr>"
  "funcMap example_roomy = example_funcMap"
  "Logger example_roomy = []"
  "readRoutines example_roomy = 1"
  by (simp_all add: example_roomy_def example_started_eq make_chan_def)

lemma example_request_fields:
  "ID (example_request n m) = Some (JSONRPCIntID n)"
  "Method (example_request n m) = m"
  "Params (example_request n m) = []"
  by (simp_all add: example_request_def)

text \<open>
  The theorem at a request for a method the example registry does not have.
\<close>

theorem C7_unknown_method_witness:
  "ID (example_request 5 ''nosuch'') = Some (JSONRPCIntID 5)
   \<and> funcMap example_roomy (Method (example_request 5 ''nosuch'')) = None
   \<and> readRoutine 0 NotDone example_roomy [Request (example_request 5 ''nosuch'')]
       = (AwaitingFrame,
          example_roomy\<lparr>writeChan :=
            Some \<lparr>cap = 3, buf = [RPCMethodNotFoundError (Some (JSONRPCIntID 5))],
                  recv_parked = False\<rparr>\<rparr>,
          [])
   \<and> resp_code (RPCMethodNotFoundError (Some (JSONRPCIntID 5))) = Some (- 32601)
   \<and> resp_ID (RPCMethodNotFoundError (Some (JSONRPCIntID 5))) = Some (JSONRPCIntID 5)"
proof -
  have a: "ID (example_request 5 ''nosuch'') = Some (JSONRPCIntID 5)"
    by (simp add: example_request_fields)
  have b: "funcMap example_roomy (Method (example_request 5 ''nosuch'')) = None"
    by (simp add: example_request_fields example_roomy_fields example_funcMap_simps)
  have c: "can_send (writeChan example_roomy)" "\<not> ctx_Done NotDone"
    by (simp_all add: can_send_def example_roomy_fields)
  from C7_unknown_method
         [of "example_request 5 ''nosuch''" "JSONRPCIntID 5" example_roomy NotDone 0 "[]"] a b c
  show ?thesis
    by (simp add: example_no_read_deadline_error example_roomy_fields chan_send_def)
qed

subsection \<open>The outcome of a handler\<close>

lemma readRoutine_resp_no_error:
  "readRoutine_resp rid (result, None) = NewRPCSuccessResponse rid result"
  by (simp add: readRoutine_resp_def)

lemma readRoutine_resp_RPCError:
  "readRoutine_resp rid (result, Some (RPCError c m d)) = NewRPCErrorResponse rid c m d"
  by (simp add: readRoutine_resp_def)

lemma readRoutine_resp_bad_request:
  assumes "Unwrap err \<in> {Some ErrZeroOrNegativeHeight, Some ErrZeroOrNegativePerPage,
                          Some ErrPageOutOfRange, Some ErrInvalidRequest}"
  shows "readRoutine_resp rid (result, Some err) = RPCInvalidRequestError rid err"
proof -
  from assms obtain msg e where "err = Errorf msg e" by (cases err) auto
  with assms show ?thesis by (auto simp: readRoutine_resp_def)
qed

lemma readRoutine_resp_other:
  assumes "\<forall>c m d. err \<noteq> RPCError c m d"
    and "Unwrap err \<notin> {Some ErrZeroOrNegativeHeight, Some ErrZeroOrNegativePerPage,
                          Some ErrPageOutOfRange, Some ErrInvalidRequest}"
  shows "readRoutine_resp rid (result, Some err) = RPCInternalError rid err"
  using assms by (cases err) (simp_all add: readRoutine_resp_def)

lemma unreflectResult_simps:
  "unreflectResult result None = (result, None)"
  "unreflectResult result (Some e) = ([], Some e)"
  by (simp_all add: unreflectResult_def)

text \<open>
  Claim C5. The response built from a handler's outcome, for the id \<open>rid\<close>: with no
  error it is the success response with the result and that id; an \<open>RPCError\<close> is
  forwarded with its code, message and data and that id; an error whose \<open>Unwrap\<close> is one
  of the four sentinels gives InvalidRequest, code -32600; any other error gives
  InternalError, code -32603. For a request with an id, a registered method and
  parameters that bind, the loop body asks for the write of exactly that response under
  the request's id.
\<close>

theorem C5_handler_outcome_mapping:
  "readRoutine_resp rid (unreflectResult result None) = NewRPCSuccessResponse rid result
   \<and> resp_ID (NewRPCSuccessResponse rid result) = rid
   \<and> Result (NewRPCSuccessResponse rid result) = Some result
   \<and> Error (NewRPCSuccessResponse rid result) = None
   \<and> readRoutine_resp rid (unreflectResult result (Some (RPCError c m d)))
       = NewRPCErrorResponse rid c m d
   \<and> resp_ID (NewRPCErrorResponse rid c m d) = rid
   \<and> Error (NewRPCErrorResponse rid c m d) = Some (c, m, d)
   \<and> (Unwrap err \<in> {Some ErrZeroOrNegativeHeight, Some ErrZeroOrNegativePerPage,
                      Some ErrPageOutOfRange, Some ErrInvalidRequest} \<longrightarrow>
        readRoutine_resp rid (unreflectResult result (Some err)) = RPCInvalidRequestError rid err
        \<and> resp_code (RPCInvalidRequestError rid err) = Some (- 32600)
        \<and> resp_ID (RPCInvalidRequestError rid err) = rid)
   \<and> ((\<forall>c m d. err \<noteq> RPCError c m d)
        \<and> Unwrap err \<notin> {Some ErrZeroOrNegativeHeight, Some ErrZeroOrNegativePerPage,
                          Some ErrPageOutOfRange, Some ErrInvalidRequest} \<longrightarrow>
        readRoutine_resp rid (unreflectResult result (Some err)) = RPCInternalError rid err
        \<and> resp_code (RPCInternalError rid err) = Some (- 32603)
        \<and> resp_ID (RPCInternalError rid err) = rid)
   \<and> (ID request = Some qid \<and> funcMap wsc (Method request) = Some rpcFunc
        \<and> (if Params request \<noteq> [] then jsonParamsToArgs rpcFunc (Params request) else Inr [])
            = Inr fnArgs
        \<and> f_Call rpcFunc (ContextArg request # fnArgs) = Returns result oerr \<longrightarrow>
        readRoutine_body wsc (Request request)
          = Respond Invoked (readRoutine_resp (Some qid) (unreflectResult result oerr))
              (log Info ''WSJSONRPC'' (reset_read_deadline wsc)))"
proof -
  have a: "readRoutine_resp rid (unreflectResult result None) = NewRPCSuccessResponse rid result"
    by (simp add: unreflectResult_simps readRoutine_resp_no_error)
  have a': "resp_ID (NewRPCSuccessResponse rid result) = rid"
    "Result (NewRPCSuccessResponse rid result) = Some result"
    "Error (NewRPCSuccessResponse rid result) = None"
    by (simp_all add: NewRPCSuccessResponse_def)
  have b: "readRoutine_resp rid (unreflectResult result (Some (RPCError c m d)))
       = NewRPCErrorResponse rid c m d"
    by (simp add: unreflectResult_simps readRoutine_resp_RPCError)
  have b': "resp_ID (NewRPCErrorResponse rid c m d) = rid"
    "Error (NewRPCErrorResponse rid c m d) = Some (c, m, d)"
    by (simp_all add: NewRPCErrorResponse_def)
  have c: "Unwrap err \<in> {Some ErrZeroOrNegativeHeight, Some ErrZeroOrNegativePerPage,
                      Some ErrPageOutOfRange, Some ErrInvalidRequest} \<longrightarrow>
        readRoutine_resp rid (unreflectResult result (Some err)) = RPCInvalidRequestError rid err
        \<and> resp_code (RPCInvalidRequestError rid err) = Some (- 32600)
        \<and> resp_ID (RPCInvalidRequestError rid err) = rid"
    using readRoutine_resp_bad_request [of err rid "[]"]
    by (simp only: unreflectResult_simps resp_code_simps resp_ID_simps) blast
  have d: "(\<forall>c m d. err \<noteq> RPCError c m d)
        \<and> Unwrap err \<notin> {Some ErrZeroOrNegativeHeight, Some ErrZeroOrNegativePerPage,
                          Some ErrPageOutOfRange, Some ErrInvalidRequest} \<longrightarrow>
        readRoutine_resp rid (unreflectResult result (Some err)) = RPCInternalError rid err
        \<and> resp_code (RPCInternalError rid err) = Some (- 32603)
        \<and> resp_ID (RPCInternalError rid err) = rid"
    using readRoutine_resp_other [of err rid "[]"]
    by (simp only: unreflectResult_simps resp_code_simps resp_ID_simps) blast
  have e: "ID request = Some qid \<and> funcMap wsc (Method request) = Some rpcFunc
        \<and> (if Params request \<noteq> [] then jsonParamsToArgs rpcFunc (Params request) else Inr [])
            = Inr fnArgs
        \<and> f_Call rpcFunc (ContextArg request # fnArgs) = Returns result oerr \<longrightarrow>
        readRoutine_body wsc (Request request)
          = Respond Invoked (readRoutine_resp (Some qid) (unreflectResult result oerr))
              (log Info ''WSJSONRPC'' (reset_read_deadline wsc))"
  proof
    assume h: "ID request = Some qid \<and> funcMap wsc (Method request) = Some rpcFunc
        \<and> (if Params request \<noteq> [] then jsonParamsToArgs rpcFunc (Params request) else Inr [])
            = Inr fnArgs
        \<and> f_Call rpcFunc (ContextArg request # fnArgs) = Returns result oerr"
    then have h1: "ID request = Some qid" and h2: "funcMap wsc (Method request) = Some rpcFunc"
      and h3: "(if Params request \<noteq> [] then jsonParamsToArgs rpcFunc (Params request) else Inr [])
            = Inr fnArgs"
      and h4: "f_Call rpcFunc (ContextArg request # fnArgs) = Returns result oerr"
      by blast+
    show "readRoutine_body wsc (Request request)
          = Respond Invoked (readRoutine_resp (Some qid) (unreflectResult result oerr))
              (log Info ''WSJSONRPC'' (reset_read_deadline wsc))"
      by (simp add: body_call [OF h1 h2 h3] h4)
  qed
  from a a' b b' c d e show ?thesis by (intro conjI)
qed

lemma example_status_call: "f_Call example_status args = Returns ''ok'' None"
  by (simp add: example_status_def)

lemma example_crash_call: "f_Call example_crash args = Panics (PanicValue ''boom'')"
  by (simp add: example_crash_def)

text \<open>
  The theorem at a wrapped sentinel, at a sentinel returned as it is (which \<open>Unwrap\<close>
  does not open, so that it is an internal error) and at a call of the example registry.
\<close>

theorem C5_handler_outcome_mapping_witness:
  "readRoutine_resp (Some (JSONRPCIntID 1))
       (unreflectResult ''ok'' (Some (Errorf ''bad page'' ErrPageOutOfRange)))
     = RPCInvalidRequestError (Some (JSONRPCIntID 1)) (Errorf ''bad page'' ErrPageOutOfRange)
   \<and> readRoutine_resp (Some (JSONRPCIntID 1)) (unreflectResult ''ok'' (Some ErrPageOutOfRange))
     = RPCInternalError (Some (JSONRPCIntID 1)) ErrPageOutOfRange
   \<and> readRoutine_body example_roomy (Request (example_request 1 ''status''))
     = Respond Invoked (NewRPCSuccessResponse (Some (JSONRPCIntID 1)) ''ok'')
         (log Info ''WSJSONRPC'' example_roomy)"
proof -
  note t1 = C5_handler_outcome_mapping
              [of "Some (JSONRPCIntID 1)" "''ok''" 0 "[]" "[]"
                  "Errorf ''bad page'' ErrPageOutOfRange"
                  "example_request 1 ''status''" "JSONRPCIntID 1" example_roomy example_status
                  "[]" None]
  note t2 = C5_handler_outcome_mapping
              [of "Some (JSONRPCIntID 1)" "''ok''" 0 "[]" "[]" ErrPageOutOfRange
                  "example_request 1 ''status''" "JSONRPCIntID 1" example_roomy example_status
                  "[]" None]
  have h1: "Unwrap (Errorf ''bad page'' ErrPageOutOfRange)
              \<in> {Some ErrZeroOrNegativeHeight, Some ErrZeroOrNegativePerPage,
                  Some ErrPageOutOfRange, Some ErrInvalidRequest}"
    by simp
  have h2: "(\<forall>c m d. ErrPageOutOfRange \<noteq> RPCError c m d)
            \<and> Unwrap ErrPageOutOfRange
              \<notin> {Some ErrZeroOrNegativeHeight, Some ErrZeroOrNegativePerPage,
                  Some ErrPageOutOfRange, Some ErrInvalidRequest}"
    by simp
  have h3: "ID (example_request 1 ''status'') = Some (JSONRPCIntID 1)
            \<and> funcMap example_roomy (Method (example_request 1 ''status'')) = Some example_status
            \<and> (if Params (example_request 1 ''status'') \<noteq> []
                then jsonParamsToArgs example_status (Params (example_request 1 ''status''))
                else Inr []) = Inr []
            \<and> f_Call example_status [ContextArg (example_request 1 ''status'')]
                = Returns ''ok'' None"
    by (simp add: example_request_fields example_roomy_fields example_funcMap_simps
        example_status_call)
  have a: "readRoutine_resp (Some (JSONRPCIntID 1))
       (unreflectResult ''ok'' (Some (Errorf ''bad page'' ErrPageOutOfRange)))
     = RPCInvalidRequestError (Some (JSONRPCIntID 1)) (Errorf ''bad page'' ErrPageOutOfRange)"
    using t1 h1 by blast
  have b: "readRoutine_resp (Some (JSONRPCIntID 1)) (unreflectResult ''ok'' (Some ErrPageOutOfRange))
     = RPCInternalError (Some (JSONRPCIntID 1)) ErrPageOutOfRange"
    using t2 h2 by blast
  have c: "readRoutine_body example_roomy (Request (example_request 1 ''status''))
     = Respond Invoked (readRoutine_resp (Some (JSONRPCIntID 1)) (unreflectResult ''ok'' None))
         (log Info ''WSJSONRPC'' (reset_read_deadline example_roomy))"
    using t1 h3 by blast
  have d: "readRoutine_resp (Some (JSONRPCIntID 1)) (unreflectResult ''ok'' None)
             = NewRPCSuccessResponse (Some (JSONRPCIntID 1)) ''ok''"
    using t1 by blast
  from a b c d show ?thesis by (simp add: example_no_read_deadline_error)
qed

subsection \<open>Parameter binding\<close>

lemma example_strict_conn_fields:
  "funcMap example_strict_conn m = Some example_strict"
  "reset_read_deadline example_strict_conn = example_strict_conn"
  by (simp_all add: example_strict_conn_def reset_read_deadline_def example_roomy_def
      example_started_eq example_Conn_def)

lemma readRoutine_resp_code_InvalidParams:
  assumes c: "resp_code (readRoutine_resp rid (unreflectResult result oerr)) = Some (- 32602)"
  shows "\<exists>m d. oerr = Some (RPCError (- 32602) m d)
           \<and> readRoutine_resp rid (unreflectResult result oerr)
               = NewRPCErrorResponse rid (- 32602) m d"
proof (cases oerr)
  case None
  with c show ?thesis
    by (simp add: unreflectResult_simps readRoutine_resp_no_error resp_code_simps)
next
  case (Some err)
  show ?thesis
  proof (cases "\<exists>c m d. err = RPCError c m d")
    case True
    then obtain c' m d where e: "err = RPCError c' m d" by blast
    with c Some have "c' = - 32602"
      by (simp add: unreflectResult_simps readRoutine_resp_RPCError resp_code_simps)
    with e Some show ?thesis
      by (simp add: unreflectResult_simps readRoutine_resp_RPCError)
  next
    case False
    then have nr: "\<forall>c m d. err \<noteq> RPCError c m d" by blast
    show ?thesis
    proof (cases "Unwrap err \<in> {Some ErrZeroOrNegativeHeight, Some ErrZeroOrNegativePerPage,
                                  Some ErrPageOutOfRange, Some ErrInvalidRequest}")
      case True
      from readRoutine_resp_bad_request [OF True, of rid "[]"] c Some show ?thesis
        by (simp add: unreflectResult_simps resp_code_simps)
    next
      case False
      from readRoutine_resp_other [OF nr False, of rid "[]"] c Some show ?thesis
        by (simp add: unreflectResult_simps resp_code_simps)
    qed
  qed
qed

lemma body_with_params:
  "ID request = Some rid \<Longrightarrow> funcMap wsc (Method request) = Some rpcFunc \<Longrightarrow>
   Params request \<noteq> [] \<Longrightarrow>
   readRoutine_body wsc (Request request)
     = (case jsonParamsToArgs rpcFunc (Params request) of
          Inl err \<Rightarrow>
            Respond BindFailure
              (RPCInvalidParamsError (Some rid)
                 (Errorf ''error converting json params to arguments'' err))
              (reset_read_deadline wsc)
        | Inr fnArgs \<Rightarrow>
            (case f_Call rpcFunc (ContextArg request # fnArgs) of
               Panics r \<Rightarrow>
                 Recovered (recovered_resp r)
                   (log Err ''Panic in WSJSONRPC handler'' (reset_read_deadline wsc))
             | Returns result err \<Rightarrow>
                 Respond Invoked (readRoutine_resp (Some rid) (unreflectResult result err))
                   (log Info ''WSJSONRPC'' (reset_read_deadline wsc))))"
  by (simp add: readRoutine_body_def reset_read_deadline_fields Let_def
      split: sum.splits call_result.splits)

text \<open>
  Claim C10, as amended. Binding is attempted exactly when the raw parameters of the
  request have a length above zero. For a request with an id and a registered method
  whose raw parameters have length zero, the loop body does not consult the binding
  function: the handler is called with the request context as its only argument, and
  the pass ends with the response built from that call or with the recovery from its
  panic. If that response has the code -32602, it is the handler's own structured error
  with that code, forwarded as it is. For raw parameters of any other length, the text
  of an empty array included, the binding function is consulted and its failure ends
  the pass in the binding-failure branch. Whenever a pass ends in that branch, whose
  response is InvalidParams with code -32602, the frame is a request with an id, a
  registered method and raw parameters that are not of length zero.
\<close>

theorem C10_binding_only_with_params:
  "(ID request = Some rid \<and> funcMap wsc (Method request) = Some rpcFunc \<and> Params request = []
      \<longrightarrow> readRoutine_body wsc (Request request)
            = (case f_Call rpcFunc [ContextArg request] of
                 Panics r \<Rightarrow>
                   Recovered (recovered_resp r)
                     (log Err ''Panic in WSJSONRPC handler'' (reset_read_deadline wsc))
               | Returns result err \<Rightarrow>
                   Respond Invoked (readRoutine_resp (Some rid) (unreflectResult result err))
                     (log Info ''WSJSONRPC'' (reset_read_deadline wsc))))
   \<and> (ID request = Some rid \<and> funcMap wsc (Method request) = Some rpcFunc \<and> Params request = []
       \<and> readRoutine_body wsc (Request request) = Respond br resp w
       \<and> resp_code resp = Some (- 32602)
      \<longrightarrow> br = Invoked
          \<and> (\<exists>result m d.
                f_Call rpcFunc [ContextArg request]
                  = Returns result (Some (RPCError (- 32602) m d))
                \<and> resp = NewRPCErrorResponse (Some rid) (- 32602) m d))
   \<and> (ID request = Some rid \<and> funcMap wsc (Method request) = Some rpcFunc
       \<and> Params request \<noteq> []
      \<longrightarrow> readRoutine_body wsc (Request request)
            = (case jsonParamsToArgs rpcFunc (Params request) of
                 Inl err \<Rightarrow>
                   Respond BindFailure
                     (RPCInvalidParamsError (Some rid)
                        (Errorf ''error converting json params to arguments'' err))
                     (reset_read_deadline wsc)
               | Inr fnArgs \<Rightarrow>
                   (case f_Call rpcFunc (ContextArg request # fnArgs) of
                      Panics r \<Rightarrow>
                        Recovered (recovered_resp r)
                          (log Err ''Panic in WSJSONRPC handler'' (reset_read_deadline wsc))
                    | Returns result err \<Rightarrow>
                        Respond Invoked (readRoutine_resp (Some rid) (unreflectResult result err))
                          (log Info ''WSJSONRPC'' (reset_read_deadline wsc)))))
   \<and> (\<forall>resp w. readRoutine_body wsc fr = Respond BindFailure resp w \<longrightarrow>
         (\<exists>request rid rpcFunc err.
            fr = Request request \<and> Params request \<noteq> [] \<and> ID request = Some rid
            \<and> funcMap wsc (Method request) = Some rpcFunc
            \<and> jsonParamsToArgs rpcFunc (Params request) = Inl err
            \<and> resp = RPCInvalidParamsError (Some rid)
                       (Errorf ''error converting json params to arguments'' err)))
   \<and> (\<forall>rid err. resp_code (RPCInvalidParamsError rid err) = Some (- 32602))"
proof -
  have a: "ID request = Some rid \<and> funcMap wsc (Method request) = Some rpcFunc \<and> Params request = []
      \<longrightarrow> readRoutine_body wsc (Request request)
            = (case f_Call rpcFunc [ContextArg request] of
                 Panics r \<Rightarrow>
                   Recovered (recovered_resp r)
                     (log Err ''Panic in WSJSONRPC handler'' (reset_read_deadline wsc))
               | Returns result err \<Rightarrow>
                   Respond Invoked (readRoutine_resp (Some rid) (unreflectResult result err))
                     (log Info ''WSJSONRPC'' (reset_read_deadline wsc)))"
  proof
    assume h: "ID request = Some rid \<and> funcMap wsc (Method request) = Some rpcFunc
               \<and> Params request = []"
    then have h1: "ID request = Some rid" and h2: "funcMap wsc (Method request) = Some rpcFunc"
      and h3: "(if Params request \<noteq> [] then jsonParamsToArgs rpcFunc (Params request) else Inr [])
                 = Inr []"
      by simp_all
    show "readRoutine_body wsc (Request request)
            = (case f_Call rpcFunc [ContextArg request] of
                 Panics r \<Rightarrow>
                   Recovered (recovered_resp r)
                     (log Err ''Panic in WSJSONRPC handler'' (reset_read_deadline wsc))
               | Returns result err \<Rightarrow>
                   Respond Invoked (readRoutine_resp (Some rid) (unreflectResult result err))
                     (log Info ''WSJSONRPC'' (reset_read_deadline wsc)))"
      by (rule body_call [OF h1 h2 h3])
  qed
  have a2: "ID request = Some rid \<and> funcMap wsc (Method request) = Some rpcFunc \<and> Params request = []
       \<and> readRoutine_body wsc (Request request) = Respond br resp w
       \<and> resp_code resp = Some (- 32602)
      \<longrightarrow> br = Invoked
          \<and> (\<exists>result m d.
                f_Call rpcFunc [ContextArg request]
                  = Returns result (Some (RPCError (- 32602) m d))
                \<and> resp = NewRPCErrorResponse (Some rid) (- 32602) m d)"
  proof
    assume h: "ID request = Some rid \<and> funcMap wsc (Method request) = Some rpcFunc
       \<and> Params request = []
       \<and> readRoutine_body wsc (Request request) = Respond br resp w
       \<and> resp_code resp = Some (- 32602)"
    then have pre: "ID request = Some rid \<and> funcMap wsc (Method request) = Some rpcFunc
                    \<and> Params request = []"
      and b: "readRoutine_body wsc (Request request) = Respond br resp w"
      and c: "resp_code resp = Some (- 32602)"
      by blast+
    from a pre have e: "readRoutine_body wsc (Request request)
            = (case f_Call rpcFunc [ContextArg request] of
                 Panics r \<Rightarrow>
                   Recovered (recovered_resp r)
                     (log Err ''Panic in WSJSONRPC handler'' (reset_read_deadline wsc))
               | Returns result err \<Rightarrow>
                   Respond Invoked (readRoutine_resp (Some rid) (unreflectResult result err))
                     (log Info ''WSJSONRPC'' (reset_read_deadline wsc)))"
      by blast
    show "br = Invoked
          \<and> (\<exists>result m d.
                f_Call rpcFunc [ContextArg request]
                  = Returns result (Some (RPCError (- 32602) m d))
                \<and> resp = NewRPCErrorResponse (Some rid) (- 32602) m d)"
    proof (cases "f_Call rpcFunc [ContextArg request]")
      case (Panics r)
      with e b show ?thesis by simp
    next
      case (Returns result oerr)
      with e b have br: "br = Invoked"
        and r: "resp = readRoutine_resp (Some rid) (unreflectResult result oerr)"
        by simp_all
      from c r have "resp_code (readRoutine_resp (Some rid) (unreflectResult result oerr))
                       = Some (- 32602)"
        by simp
      from readRoutine_resp_code_InvalidParams [OF this]
      obtain m d where "oerr = Some (RPCError (- 32602) m d)"
        and "readRoutine_resp (Some rid) (unreflectResult result oerr)
               = NewRPCErrorResponse (Some rid) (- 32602) m d"
        by blast
      with br r Returns show ?thesis by blast
    qed
  qed
  have a3: "ID request = Some rid \<and> funcMap wsc (Method request) = Some rpcFunc
       \<and> Params request \<noteq> []
      \<longrightarrow> readRoutine_body wsc (Request request)
            = (case jsonParamsToArgs rpcFunc (Params request) of
                 Inl err \<Rightarrow>
                   Respond BindFailure
                     (RPCInvalidParamsError (Some rid)
                        (Errorf ''error converting json params to arguments'' err))
                     (reset_read_deadline wsc)
               | Inr fnArgs \<Rightarrow>
                   (case f_Call rpcFunc (ContextArg request # fnArgs) of
                      Panics r \<Rightarrow>
                        Recovered (recovered_resp r)
                          (log Err ''Panic in WSJSONRPC handler'' (reset_read_deadline wsc))
                    | Returns result err \<Rightarrow>
                        Respond Invoked (readRoutine_resp (Some rid) (unreflectResult result err))
                          (log Info ''WSJSONRPC'' (reset_read_deadline wsc))))"
    using body_with_params [of request rid wsc rpcFunc] by blast
  have b: "\<forall>resp w. readRoutine_body wsc fr = Respond BindFailure resp w \<longrightarrow>
         (\<exists>request rid rpcFunc err.
            fr = Request request \<and> Params request \<noteq> [] \<and> ID request = Some rid
            \<and> funcMap wsc (Method request) = Some rpcFunc
            \<and> jsonParamsToArgs rpcFunc (Params request) = Inl err
            \<and> resp = RPCInvalidParamsError (Some rid)
                       (Errorf ''error converting json params to arguments'' err))"
  proof (intro allI impI)
    fix resp w
    assume r: "readRoutine_body wsc fr = Respond BindFailure resp w"
    show "\<exists>request rid rpcFunc err.
            fr = Request request \<and> Params request \<noteq> [] \<and> ID request = Some rid
            \<and> funcMap wsc (Method request) = Some rpcFunc
            \<and> jsonParamsToArgs rpcFunc (Params request) = Inl err
            \<and> resp = RPCInvalidParamsError (Some rid)
                       (Errorf ''error converting json params to arguments'' err)"
    proof (cases fr)
      case (ReadError normal e)
      with r show ?thesis
        by (simp add: readRoutine_body_def Let_def split: if_splits)
    next
      case (Undecodable e)
      with r show ?thesis by (simp add: readRoutine_body_def Let_def)
    next
      case (Request request)
      with r show ?thesis
        by (auto simp: readRoutine_body_def Let_def reset_read_deadline_fields
            split: option.splits sum.splits call_result.splits if_splits)
    qed
  qed
  have c: "\<forall>rid err. resp_code (RPCInvalidParamsError rid err) = Some (- 32602)"
    by (simp add: resp_code_simps)
  from a a2 a3 b c show ?thesis by (intro conjI)
qed

lemma example_reject_conn_fields:
  "funcMap example_reject_conn m = Some example_reject"
  "reset_read_deadline example_reject_conn = example_reject_conn"
  by (simp_all add: example_reject_conn_def reset_read_deadline_def example_roomy_def
      example_started_eq example_Conn_def)

lemma example_reject_call:
  "f_Call example_reject args = Returns [] (Some (RPCError (- 32602) ''InvalidParams'' ''bad''))"
  by (simp add: example_reject_def)

lemma example_empty_array_request_fields:
  "ID example_empty_array_request = Some (JSONRPCIntID 5)"
  "Method example_empty_array_request = ''status''"
  "Params example_empty_array_request = ''[]''"
  by (simp_all add: example_empty_array_request_def)

lemma example_reject_body:
  "readRoutine_body example_reject_conn (Request (example_request 4 ''status''))
     = Respond Invoked (RPCInvalidParamsError (Some (JSONRPCIntID 4)) (ErrorsNew ''bad''))
         (log Info ''WSJSONRPC'' example_reject_conn)"
proof -
  have "readRoutine_body example_reject_conn (Request (example_request 4 ''status''))
          = Respond Invoked
              (readRoutine_resp (Some (JSONRPCIntID 4))
                 (unreflectResult [] (Some (RPCError (- 32602) ''InvalidParams'' ''bad''))))
              (log Info ''WSJSONRPC'' example_reject_conn)"
    using body_call [of "example_request 4 ''status''" "JSONRPCIntID 4" example_reject_conn
                        example_reject "[]"]
    by (simp add: example_request_fields example_reject_conn_fields example_reject_call)
  then show ?thesis
    by (simp add: unreflectResult_simps readRoutine_resp_RPCError RPCInvalidParamsError_def)
qed

lemma example_strict_body:
  "readRoutine_body example_strict_conn (Request example_empty_array_request)
     = Respond BindFailure
         (RPCInvalidParamsError (Some (JSONRPCIntID 5))
            (Errorf ''error converting json params to arguments''
               (ErrorsNew ''unexpected parameter'')))
         example_strict_conn"
  using body_bind_failure [of example_empty_array_request "JSONRPCIntID 5" example_strict_conn
                              example_strict "ErrorsNew ''unexpected parameter''"]
  by (simp add: example_empty_array_request_fields example_strict_conn_fields
      jsonParamsToArgs_def example_strict_def)

text \<open>
  The theorem at three requests: one without parameters for a method whose binding
  function rejects every parameter text, which is served; one without parameters whose
  handler returns a structured error with the code -32602, which is forwarded; one
  whose parameters are the text of an empty array, which is bound and rejected.
\<close>

theorem C10_binding_only_with_params_witness:
  "ID (example_request 4 ''status'') = Some (JSONRPCIntID 4)
   \<and> Params (example_request 4 ''status'') = []
   \<and> params_to_args example_strict (Params (example_request 4 ''status''))
       = Inl (ErrorsNew ''unexpected parameter'')
   \<and> readRoutine_body example_strict_conn (Request (example_request 4 ''status''))
       = Respond Invoked (NewRPCSuccessResponse (Some (JSONRPCIntID 4)) ''ok'')
           (log Info ''WSJSONRPC'' example_strict_conn)
   \<and> readRoutine_body example_reject_conn (Request (example_request 4 ''status''))
       = Respond Invoked (NewRPCErrorResponse (Some (JSONRPCIntID 4)) (- 32602) ''InvalidParams'' ''bad'')
           (log Info ''WSJSONRPC'' example_reject_conn)
   \<and> Params example_empty_array_request = ''[]''
   \<and> readRoutine_body example_strict_conn (Request example_empty_array_request)
       = Respond BindFailure
           (RPCInvalidParamsError (Some (JSONRPCIntID 5))
              (Errorf ''error converting json params to arguments''
                 (ErrorsNew ''unexpected parameter'')))
           example_strict_conn"
proof -
  let ?q = "example_request 4 ''status''"
  have h: "ID ?q = Some (JSONRPCIntID 4)
           \<and> funcMap example_strict_conn (Method ?q) = Some example_strict
           \<and> Params ?q = []"
    by (simp add: example_request_fields example_strict_conn_fields)
  have p: "params_to_args example_strict (Params ?q) = Inl (ErrorsNew ''unexpected parameter'')"
    by (simp add: example_strict_def)
  have c: "f_Call example_strict [ContextArg ?q] = Returns ''ok'' None"
    by (simp add: example_strict_def)
  from C10_binding_only_with_params
         [of ?q "JSONRPCIntID 4" example_strict_conn example_strict Invoked
             "NewRPCSuccessResponse (Some (JSONRPCIntID 4)) ''ok''" example_strict_conn
             "Request ?q"] h
  have "readRoutine_body example_strict_conn (Request ?q)
            = (case f_Call example_strict [ContextArg ?q] of
                 Panics r \<Rightarrow>
                   Recovered (recovered_resp r)
                     (log Err ''Panic in WSJSONRPC handler'' (reset_read_deadline example_strict_conn))
               | Returns result err \<Rightarrow>
                   Respond Invoked
                     (readRoutine_resp (Some (JSONRPCIntID 4)) (unreflectResult result err))
                     (log Info ''WSJSONRPC'' (reset_read_deadline example_strict_conn)))"
    by blast
  then have b: "readRoutine_body example_strict_conn (Request ?q)
       = Respond Invoked (NewRPCSuccessResponse (Some (JSONRPCIntID 4)) ''ok'')
           (log Info ''WSJSONRPC'' example_strict_conn)"
    by (simp add: c example_strict_conn_fields unreflectResult_simps readRoutine_resp_no_error)
  let ?rr = "RPCInvalidParamsError (Some (JSONRPCIntID 4)) (ErrorsNew ''bad'')"
  have h2: "ID ?q = Some (JSONRPCIntID 4)
            \<and> funcMap example_reject_conn (Method ?q) = Some example_reject
            \<and> Params ?q = []
            \<and> readRoutine_body example_reject_conn (Request ?q)
                = Respond Invoked ?rr (log Info ''WSJSONRPC'' example_reject_conn)
            \<and> resp_code ?rr = Some (- 32602)"
    by (simp add: example_request_fields example_reject_conn_fields example_reject_body
        resp_code_simps)
  from C10_binding_only_with_params
         [of ?q "JSONRPCIntID 4" example_reject_conn example_reject Invoked ?rr
             "log Info ''WSJSONRPC'' example_reject_conn" "Request ?q"] h2
  obtain result m d where
    f: "f_Call example_reject [ContextArg ?q] = Returns result (Some (RPCError (- 32602) m d))"
    and e: "?rr = NewRPCErrorResponse (Some (JSONRPCIntID 4)) (- 32602) m d"
    by blast
  from f have md: "m = ''InvalidParams''" "d = ''bad''"
    by (simp_all add: example_reject_call)
  from e md example_reject_body
  have b2: "readRoutine_body example_reject_conn (Request ?q)
       = Respond Invoked (NewRPCErrorResponse (Some (JSONRPCIntID 4)) (- 32602) ''InvalidParams'' ''bad'')
           (log Info ''WSJSONRPC'' example_reject_conn)"
    by simp
  have h3: "ID example_empty_array_request = Some (JSONRPCIntID 5)
            \<and> funcMap example_strict_conn (Method example_empty_array_request) = Some example_strict
            \<and> Params example_empty_array_request \<noteq> []"
    by (simp add: example_empty_array_request_fields example_strict_conn_fields)
  from C10_binding_only_with_params
         [of example_empty_array_request "JSONRPCIntID 5" example_strict_conn example_strict
             BindFailure ?rr example_strict_conn "Request example_empty_array_request"] h3
  have "readRoutine_body example_strict_conn (Request example_empty_array_request)
            = (case jsonParamsToArgs example_strict (Params example_empty_array_request) of
                 Inl err \<Rightarrow>
                   Respond BindFailure
                     (RPCInvalidParamsError (Some (JSONRPCIntID 5))
                        (Errorf ''error converting json params to arguments'' err))
                     (reset_read_deadline example_strict_conn)
               | Inr fnArgs \<Rightarrow>
                   (case f_Call example_strict (ContextArg example_empty_array_request # fnArgs) of
                      Panics r \<Rightarrow>
                        Recovered (recovered_resp r)
                          (log Err ''Panic in WSJSONRPC handler''
                             (reset_read_deadline example_strict_conn))
                    | Returns result err \<Rightarrow>
                        Respond Invoked
                          (readRoutine_resp (Some (JSONRPCIntID 5)) (unreflectResult result err))
                          (log Info ''WSJSONRPC'' (reset_read_deadline example_strict_conn))))"
    by blast
  then have b3: "readRoutine_body example_strict_conn (Request example_empty_array_request)
       = Respond BindFailure
           (RPCInvalidParamsError (Some (JSONRPCIntID 5))
              (Errorf ''error converting json params to arguments''
                 (ErrorsNew ''unexpected parameter'')))
           example_strict_conn"
    by (simp add: jsonParamsToArgs_def example_strict_def example_strict_conn_fields)
  have p3: "Params example_empty_array_request = ''[]''"
    by (simp add: example_empty_array_request_fields)
  from h p b b2 p3 b3 show ?thesis by blast
qed

text \<open>
  Claim C10 as stated fails twice. A request without parameters is answered with a
  response that is, field by field, an InvalidParams response with code -32602, the
  handler having returned that structured error. A request whose params field is the
  empty array is not exempt from binding: it ends in the binding-failure branch.
\<close>

theorem C10_forwarded_InvalidParams_counterexample:
  "ID (example_request 4 ''status'') = Some (JSONRPCIntID 4)
   \<and> Params (example_request 4 ''status'') = []
   \<and> funcMap example_reject_conn (Method (example_request 4 ''status'')) = Some example_reject
   \<and> readRoutine_body example_reject_conn (Request (example_request 4 ''status''))
       = Respond Invoked (RPCInvalidParamsError (Some (JSONRPCIntID 4)) (ErrorsNew ''bad''))
           (log Info ''WSJSONRPC'' example_reject_conn)
   \<and> resp_code (RPCInvalidParamsError (Some (JSONRPCIntID 4)) (ErrorsNew ''bad''))
       = Some (- 32602)
   \<and> ID example_empty_array_request = Some (JSONRPCIntID 5)
   \<and> Params example_empty_array_request = ''[]''
   \<and> funcMap example_strict_conn (Method example_empty_array_request) = Some example_strict
   \<and> readRoutine_body example_strict_conn (Request example_empty_array_request)
       = Respond BindFailure
           (RPCInvalidParamsError (Some (JSONRPCIntID 5))
              (Errorf ''error converting json params to arguments''
                 (ErrorsNew ''unexpected parameter'')))
           example_strict_conn"
  by (simp add: example_request_fields example_reject_conn_fields example_reject_body
      resp_code_simps example_empty_array_request_fields example_strict_conn_fields
      example_strict_body)

subsection \<open>A handler that panics\<close>

text \<open>
  Claim C1. When the call of a resolved handler panics, the pass through the loop body
  ends in the deferred function with one InternalError response (code -32603) whose id
  is the fixed -1, whatever the id of the request. The loop then tries to write that
  response: when the write channel can take it, the response is appended there, the
  loop is launched again (the count of launches goes up by one) and the frames that
  follow are served from the connection so reached; when the channel cannot take it,
  the loop is parked in that write and is launched again once the channel can.
\<close>

theorem C1_panic_recovered:
  "ID request = Some rid \<and> funcMap wsc (Method request) = Some rpcFunc
   \<and> (if Params request \<noteq> [] then jsonParamsToArgs rpcFunc (Params request) else Inr [])
       = Inr fnArgs
   \<and> f_Call rpcFunc (ContextArg request # fnArgs) = Panics r \<longrightarrow>
     readRoutine_body wsc (Request request)
       = Recovered (recovered_resp r)
           (log Err ''Panic in WSJSONRPC handler'' (reset_read_deadline wsc))
     \<and> resp_ID (recovered_resp r) = Some (JSONRPCIntID (- 1))
     \<and> resp_code (recovered_resp r) = Some (- 32603)
     \<and> (\<not> ctx_Done cx \<and> can_send (writeChan wsc) \<longrightarrow>
           readRoutine rnd cx wsc (Request request # frs)
             = readRoutine rnd cx
                 (launched ((log Err ''Panic in WSJSONRPC handler'' (reset_read_deadline wsc))
                    \<lparr>writeChan := chan_send (recovered_resp r) (writeChan wsc)\<rparr>))
                 frs)
     \<and> (\<not> ctx_Done cx \<and> \<not> can_send (writeChan wsc) \<longrightarrow>
           readRoutine rnd cx wsc (Request request # frs)
             = (Sending (recovered_resp r) True,
                log Err ''Panic in WSJSONRPC handler'' (reset_read_deadline wsc), frs))
     \<and> (\<forall>w. can_send (writeChan w) \<longrightarrow>
           readRoutine_resume rnd cx w (recovered_resp r) True frs
             = readRoutine rnd cx
                 (launched (w\<lparr>writeChan := chan_send (recovered_resp r) (writeChan w)\<rparr>)) frs)
     \<and> readRoutines (launched wsc) = readRoutines wsc + 1"
proof
  let ?w = "log Err ''Panic in WSJSONRPC handler'' (reset_read_deadline wsc)"
  assume h: "ID request = Some rid \<and> funcMap wsc (Method request) = Some rpcFunc
   \<and> (if Params request \<noteq> [] then jsonParamsToArgs rpcFunc (Params request) else Inr [])
       = Inr fnArgs
   \<and> f_Call rpcFunc (ContextArg request # fnArgs) = Panics r"
  then have h1: "ID request = Some rid" and h2: "funcMap wsc (Method request) = Some rpcFunc"
    and h3: "(if Params request \<noteq> [] then jsonParamsToArgs rpcFunc (Params request) else Inr [])
       = Inr fnArgs"
    and h4: "f_Call rpcFunc (ContextArg request # fnArgs) = Panics r"
    by blast+
  have b: "readRoutine_body wsc (Request request) = Recovered (recovered_resp r) ?w"
    by (simp add: body_call [OF h1 h2 h3] h4)
  have wc: "writeChan ?w = writeChan wsc"
    by (simp add: log_fields reset_read_deadline_fields)
  have i: "resp_ID (recovered_resp r) = Some (JSONRPCIntID (- 1))"
    "resp_code (recovered_resp r) = Some (- 32603)"
    by (simp_all add: recovered_resp_def resp_ID_simps resp_code_simps)
  have c: "\<not> ctx_Done cx \<and> can_send (writeChan wsc) \<longrightarrow>
           readRoutine rnd cx wsc (Request request # frs)
             = readRoutine rnd cx
                 (launched (?w\<lparr>writeChan := chan_send (recovered_resp r) (writeChan wsc)\<rparr>)) frs"
    using readRoutine_Recovered [OF _ b, of cx rnd frs] by (simp add: wc)
  have d: "\<not> ctx_Done cx \<and> \<not> can_send (writeChan wsc) \<longrightarrow>
           readRoutine rnd cx wsc (Request request # frs)
             = (Sending (recovered_resp r) True, ?w, frs)"
    using readRoutine_Recovered [OF _ b, of cx rnd frs] by (simp add: wc)
  have e: "\<forall>w. can_send (writeChan w) \<longrightarrow>
           readRoutine_resume rnd cx w (recovered_resp r) True frs
             = readRoutine rnd cx
                 (launched (w\<lparr>writeChan := chan_send (recovered_resp r) (writeChan w)\<rparr>)) frs"
    by (simp add: readRoutine_resume_eq)
  have f: "readRoutines (launched wsc) = readRoutines wsc + 1"
    by (simp add: launched_def)
  from b i c d e f
  show "readRoutine_body wsc (Request request) = Recovered (recovered_resp r) ?w
     \<and> resp_ID (recovered_resp r) = Some (JSONRPCIntID (- 1))
     \<and> resp_code (recovered_resp r) = Some (- 32603)
     \<and> (\<not> ctx_Done cx \<and> can_send (writeChan wsc) \<longrightarrow>
           readRoutine rnd cx wsc (Request request # frs)
             = readRoutine rnd cx
                 (launched (?w\<lparr>writeChan := chan_send (recovered_resp r) (writeChan wsc)\<rparr>))
                 frs)
     \<and> (\<not> ctx_Done cx \<and> \<not> can_send (writeChan wsc) \<longrightarrow>
           readRoutine rnd cx wsc (Request request # frs)
             = (Sending (recovered_resp r) True, ?w, frs))
     \<and> (\<forall>w. can_send (writeChan w) \<longrightarrow>
           readRoutine_resume rnd cx w (recovered_resp r) True frs
             = readRoutine rnd cx
                 (launched (w\<lparr>writeChan := chan_send (recovered_resp r) (writeChan w)\<rparr>)) frs)
     \<and> readRoutines (launched wsc) = readRoutines wsc + 1"
    by (intro conjI)
qed

text \<open>
  The theorem at a request whose handler panics, followed by a request that is served:
  both responses are on the write channel and the loop has been launched twice.
\<close>

theorem C1_panic_recovered_witness:
  "fst (readRoutine 0 NotDone example_roomy
          [Request (example_request 1 ''crash''), Request (example_request 2 ''status'')])
     = AwaitingFrame
   \<and> writeChan (fst (snd (readRoutine 0 NotDone example_roomy
          [Request (example_request 1 ''crash''), Request (example_request 2 ''status'')])))
     = Some \<lparr>cap = 3,
             buf = [RPCInternalError (Some (JSONRPCIntID (- 1))) (ErrorsNew ''WSJSONRPC: boom''),
                    NewRPCSuccessResponse (Some (JSONRPCIntID 2)) ''ok''],
             recv_parked = False\<rparr>
   \<and> readRoutines (fst (snd (readRoutine 0 NotDone example_roomy
          [Request (example_request 1 ''crash''), Request (example_request 2 ''status'')])))
     = 2"
proof -
  let ?w1 = "launched ((log Err ''Panic in WSJSONRPC handler'' (reset_read_deadline example_roomy))
                \<lparr>writeChan := chan_send (recovered_resp (PanicValue ''boom''))
                                 (writeChan example_roomy)\<rparr>)"
  have h: "ID (example_request 1 ''crash'') = Some (JSONRPCIntID 1)
           \<and> funcMap example_roomy (Method (example_request 1 ''crash'')) = Some example_crash
           \<and> (if Params (example_request 1 ''crash'') \<noteq> []
               then jsonParamsToArgs example_crash (Params (example_request 1 ''crash''))
               else Inr []) = Inr []
           \<and> f_Call example_crash [ContextArg (example_request 1 ''crash'')]
               = Panics (PanicValue ''boom'')"
    by (simp add: example_request_fields example_roomy_fields example_funcMap_simps
        example_crash_call)
  have g: "\<not> ctx_Done NotDone \<and> can_send (writeChan example_roomy)"
    by (simp add: can_send_def example_roomy_fields)
  from C1_panic_recovered
         [of "example_request 1 ''crash''" "JSONRPCIntID 1" example_roomy example_crash "[]"
             "PanicValue ''boom''" NotDone 0 "[Request (example_request 2 ''status'')]"] h g
  have s1: "readRoutine 0 NotDone example_roomy
              [Request (example_request 1 ''crash''), Request (example_request 2 ''status'')]
            = readRoutine 0 NotDone ?w1 [Request (example_request 2 ''status'')]"
    by blast
  have w1: "?w1 = example_roomy
               \<lparr>Logger := [(Err, ''Panic in WSJSONRPC handler'')],
                writeChan := Some \<lparr>cap = 3,
                   buf = [RPCInternalError (Some (JSONRPCIntID (- 1))) (ErrorsNew ''WSJSONRPC: boom'')],
                   recv_parked = False\<rparr>,
                readRoutines := 2\<rparr>"
    by (simp add: example_no_read_deadline_error launched_def log_def example_roomy_fields
        chan_send_def recovered_resp_def recovered_err_def)
  let ?v = "example_roomy
               \<lparr>Logger := [(Err, ''Panic in WSJSONRPC handler'')],
                writeChan := Some \<lparr>cap = 3,
                   buf = [RPCInternalError (Some (JSONRPCIntID (- 1))) (ErrorsNew ''WSJSONRPC: boom'')],
                   recv_parked = False\<rparr>,
                readRoutines := 2\<rparr>"
  have rd: "reset_read_deadline ?v = ?v"
    by (simp add: reset_read_deadline_def example_roomy_def example_started_eq example_Conn_def)
  have b2: "readRoutine_body ?v (Request (example_request 2 ''status''))
            = Respond Invoked (NewRPCSuccessResponse (Some (JSONRPCIntID 2)) ''ok'')
                (log Info ''WSJSONRPC'' ?v)"
    using body_call [of "example_request 2 ''status''" "JSONRPCIntID 2" ?v example_status "[]"]
    by (simp add: example_request_fields example_roomy_fields example_funcMap_simps
        example_status_call unreflectResult_simps readRoutine_resp_no_error rd)
  have s2: "readRoutine 0 NotDone ?v [Request (example_request 2 ''status'')]
            = (AwaitingFrame,
               (log Info ''WSJSONRPC'' ?v)
                 \<lparr>writeChan := Some \<lparr>cap = 3,
                    buf = [RPCInternalError (Some (JSONRPCIntID (- 1))) (ErrorsNew ''WSJSONRPC: boom''),
                           NewRPCSuccessResponse (Some (JSONRPCIntID 2)) ''ok''],
                    recv_parked = False\<rparr>\<rparr>, [])"
    using readRoutine_Respond [OF _ b2, of NotDone 0 "[]"]
    by (simp add: log_fields can_send_def chan_send_def)
  have s3: "readRoutine 0 NotDone example_roomy
              [Request (example_request 1 ''crash''), Request (example_request 2 ''status'')]
            = readRoutine 0 NotDone ?v [Request (example_request 2 ''status'')]"
    using s1 by (simp only: w1)
  show ?thesis
    by (simp only: s3 s2) (simp add: log_def example_roomy_fields)
qed

subsection \<open>The context of the inbound loop's writes\<close>

text \<open>
  Claim C3 says that the write of a response by the inbound loop is released when the
  connection's cancellation fires. The loop writes under \<open>writeCtx\<close>, the background
  context, which is never done: while the write channel cannot take a value the write
  is parked, and the loop stays parked in it in every later state of the connection
  whose channel still cannot take a value, whatever the connection's own context and
  the context given to \<open>Start\<close> have become.
\<close>

theorem C3_enqueue_ignores_token:
  "\<not> can_send (writeChan wsc) \<longrightarrow>
     WriteRPCResponse rnd writeCtx wsc resp = None
     \<and> readRoutine_send rnd wsc resp = None
     \<and> readRoutine_resume rnd cx wsc resp recovering frs = (Sending resp recovering, wsc, frs)"
  by (simp add: readRoutine_resume_eq readRoutine_send_eq WriteRPCResponse_cases writeCtx_def)

lemma example_cancelled_eq:
  "example_cancelled = example_full\<lparr>RunState := Stopped, ctx := Some (DoneWith Canceled),
                                      disconnected := [(7, ''10.0.0.1:4000'')]\<rparr>"
  by (simp add: example_cancelled_def Context_def Stop_def RunState_Stop_def example_full_def
      example_started_eq)

text \<open>
  The theorem at a connection whose queue is full: the loop serves a request and parks
  in the write of the response; \<open>Stop\<close> then cancels the connection's context; the loop
  is still parked, where a write under the cancelled context would have returned
  the cancellation error.
\<close>

theorem C3_enqueue_ignores_token_witness:
  "readRoutine 0 NotDone (snd (Context example_full)) [Request (example_request 2 ''status'')]
     = (Sending (NewRPCSuccessResponse (Some (JSONRPCIntID 2)) ''ok'') False,
        log Info ''WSJSONRPC'' (snd (Context example_full)), [])
   \<and> ctx example_cancelled = Some (DoneWith Canceled)
   \<and> writeChan example_cancelled = Some \<lparr>cap = 1, buf = [example_resp], recv_parked = False\<rparr>
   \<and> readRoutine_resume 0 (DoneWith Canceled) example_cancelled
         (NewRPCSuccessResponse (Some (JSONRPCIntID 2)) ''ok'') False []
       = (Sending (NewRPCSuccessResponse (Some (JSONRPCIntID 2)) ''ok'') False,
          example_cancelled, [])
   \<and> WriteRPCResponse 0 (DoneWith Canceled) example_cancelled
         (NewRPCSuccessResponse (Some (JSONRPCIntID 2)) ''ok'')
       = Some (Some Canceled, example_cancelled)"
proof -
  let ?c = "snd (Context example_full)"
  let ?r = "NewRPCSuccessResponse (Some (JSONRPCIntID 2)) ''ok''"
  have c: "?c = example_full\<lparr>ctx := Some NotDone\<rparr>"
    by (simp add: Context_def example_full_def example_started_eq)
  have rd: "reset_read_deadline ?c = ?c"
    by (simp only: c)
       (simp add: reset_read_deadline_def example_full_def example_started_eq example_Conn_def)
  have fm: "funcMap ?c = example_funcMap"
    by (simp only: c) (simp add: example_full_def example_started_eq)
  have wc: "writeChan ?c = Some \<lparr>cap = 1, buf = [example_resp], recv_parked = False\<rparr>"
    by (simp only: c) (simp add: example_full_def)
  have b: "readRoutine_body ?c (Request (example_request 2 ''status''))
             = Respond Invoked ?r (log Info ''WSJSONRPC'' ?c)"
    using body_call [of "example_request 2 ''status''" "JSONRPCIntID 2" ?c example_status "[]"]
    by (simp add: example_request_fields fm example_funcMap_simps example_status_call
        unreflectResult_simps readRoutine_resp_no_error rd)
  have s1: "readRoutine 0 NotDone ?c [Request (example_request 2 ''status'')]
              = (Sending ?r False, log Info ''WSJSONRPC'' ?c, [])"
    using readRoutine_Respond [OF _ b, of NotDone 0 "[]"]
    by (simp add: log_fields wc can_send_def)
  have x: "ctx example_cancelled = Some (DoneWith Canceled)"
    "writeChan example_cancelled = Some \<lparr>cap = 1, buf = [example_resp], recv_parked = False\<rparr>"
    by (simp_all add: example_cancelled_eq example_full_def)
  have n: "\<not> can_send (writeChan example_cancelled)"
    by (simp add: x can_send_def)
  from C3_enqueue_ignores_token [of example_cancelled 0 ?r "DoneWith Canceled" False "[]"] n
  have s2: "readRoutine_resume 0 (DoneWith Canceled) example_cancelled ?r False []
              = (Sending ?r False, example_cancelled, [])"
    by blast
  have s3: "WriteRPCResponse 0 (DoneWith Canceled) example_cancelled ?r
              = Some (Some Canceled, example_cancelled)"
    using n by (simp add: WriteRPCResponse_cases)
  from s1 x s2 s3 show ?thesis by (intro conjI)
qed

subsection \<open>Failed writes in the write multiplexer\<close>

lemma writeMessageWithDeadline_error:
  "fst (writeMessageWithDeadline t msg wsc) = Some err \<Longrightarrow>
   writeMessageWithDeadline t msg wsc = (Some err, wsc)"
  by (auto simp: writeMessageWithDeadline_def split: option.splits)

lemma writeMessageWithDeadline_park:
  "fst (writeMessageWithDeadline t msg (park b wsc)) = fst (writeMessageWithDeadline t msg wsc)"
  by (simp add: writeMessageWithDeadline_def park_def split: option.splits)

lemma case_Pongs_fails:
  "pongs wr = Some m \<Longrightarrow> fst (writeMessageWithDeadline PongMessage m wsc) = Some err \<Longrightarrow>
   writeRoutine_case mar PongsCase wsc wr
     = (Again, log Info ''Failed to write pong (client may disconnect)'' wsc, wr\<lparr>pongs := None\<rparr>)"
  using writeMessageWithDeadline_error [of PongMessage m wsc err]
  by (simp add: writeRoutine_case_def)

lemma case_Ping_fails:
  "fst (writeMessageWithDeadline PingMessage [] wsc) = Some err \<Longrightarrow>
   writeRoutine_case mar PingTickerCase wsc wr
     = (Exited, log Err ''Failed to write ping'' wsc, wr\<lparr>tick := False\<rparr>)"
  using writeMessageWithDeadline_error [of PingMessage "[]" wsc err]
  by (simp add: writeRoutine_case_def)

text \<open>
  Claim C4. In the pong case of the write loop a failed write is logged and the loop
  goes on; in the ping case a failed write is logged and the loop returns. This holds
  of the two cases taken alone and of the loop: a turn whose select chooses the pong
  case and whose write fails is followed by the remaining turns, a turn whose select
  chooses the ping ticker and whose write fails ends the loop whatever turns remain.
\<close>

theorem C4_pong_failure_goes_on_ping_failure_ends:
  "(pongs wr = Some m \<and> fst (writeMessageWithDeadline PongMessage m wsc) = Some err \<longrightarrow>
      writeRoutine_case mar PongsCase wsc wr
        = (Again, log Info ''Failed to write pong (client may disconnect)'' wsc,
           wr\<lparr>pongs := None\<rparr>))
   \<and> (fst (writeMessageWithDeadline PingMessage [] wsc) = Some err \<longrightarrow>
      writeRoutine_case mar PingTickerCase wsc wr
        = (Exited, log Err ''Failed to write ping'' wsc, wr\<lparr>tick := False\<rparr>))
   \<and> (writeRoutine_select rnd cx wsc wr = Some PongsCase \<and> pongs wr = Some m
       \<and> fst (writeMessageWithDeadline PongMessage m wsc) = Some err \<longrightarrow>
      writeRoutine mar (rnd # rnds) cx wsc wr
        = writeRoutine mar rnds cx
            (log Info ''Failed to write pong (client may disconnect)'' (park False wsc))
            (wr\<lparr>pongs := None\<rparr>))
   \<and> (writeRoutine_select rnd cx wsc wr = Some PingTickerCase
       \<and> fst (writeMessageWithDeadline PingMessage [] wsc) = Some err \<longrightarrow>
      writeRoutine mar (rnd # rnds) cx wsc wr
        = (Exited, log Err ''Failed to write ping'' (park False wsc), wr\<lparr>tick := False\<rparr>))"
proof -
  have a: "pongs wr = Some m \<and> fst (writeMessageWithDeadline PongMessage m wsc) = Some err \<longrightarrow>
      writeRoutine_case mar PongsCase wsc wr
        = (Again, log Info ''Failed to write pong (client may disconnect)'' wsc,
           wr\<lparr>pongs := None\<rparr>)"
    by (simp add: case_Pongs_fails)
  have b: "fst (writeMessageWithDeadline PingMessage [] wsc) = Some err \<longrightarrow>
      writeRoutine_case mar PingTickerCase wsc wr
        = (Exited, log Err ''Failed to write ping'' wsc, wr\<lparr>tick := False\<rparr>)"
    by (simp add: case_Ping_fails)
  have c: "writeRoutine_select rnd cx wsc wr = Some PongsCase \<and> pongs wr = Some m
       \<and> fst (writeMessageWithDeadline PongMessage m wsc) = Some err \<longrightarrow>
      writeRoutine mar (rnd # rnds) cx wsc wr
        = writeRoutine mar rnds cx
            (log Info ''Failed to write pong (client may disconnect)'' (park False wsc))
            (wr\<lparr>pongs := None\<rparr>)"
  proof
    assume h: "writeRoutine_select rnd cx wsc wr = Some PongsCase \<and> pongs wr = Some m
       \<and> fst (writeMessageWithDeadline PongMessage m wsc) = Some err"
    then have p: "pongs wr = Some m" by blast
    from h have f: "fst (writeMessageWithDeadline PongMessage m (park False wsc)) = Some err"
      by (simp add: writeMessageWithDeadline_park)
    have "writeRoutine_body mar rnd cx wsc wr
            = (Again, log Info ''Failed to write pong (client may disconnect)'' (park False wsc),
               wr\<lparr>pongs := None\<rparr>)"
      using h case_Pongs_fails [OF p f] by (simp add: writeRoutine_body_def)
    then show "writeRoutine mar (rnd # rnds) cx wsc wr
        = writeRoutine mar rnds cx
            (log Info ''Failed to write pong (client may disconnect)'' (park False wsc))
            (wr\<lparr>pongs := None\<rparr>)"
      by simp
  qed
  have d: "writeRoutine_select rnd cx wsc wr = Some PingTickerCase
       \<and> fst (writeMessageWithDeadline PingMessage [] wsc) = Some err \<longrightarrow>
      writeRoutine mar (rnd # rnds) cx wsc wr
        = (Exited, log Err ''Failed to write ping'' (park False wsc), wr\<lparr>tick := False\<rparr>)"
  proof
    assume h: "writeRoutine_select rnd cx wsc wr = Some PingTickerCase
       \<and> fst (writeMessageWithDeadline PingMessage [] wsc) = Some err"
    then have f: "fst (writeMessageWithDeadline PingMessage [] (park False wsc)) = Some err"
      by (simp add: writeMessageWithDeadline_park)
    have "writeRoutine_body mar rnd cx wsc wr
            = (Exited, log Err ''Failed to write ping'' (park False wsc), wr\<lparr>tick := False\<rparr>)"
      using h case_Ping_fails [OF f] by (simp add: writeRoutine_body_def)
    then show "writeRoutine mar (rnd # rnds) cx wsc wr
        = (Exited, log Err ''Failed to write ping'' (park False wsc), wr\<lparr>tick := False\<rparr>)"
      by simp
  qed
  from a b c d show ?thesis by (intro conjI)
qed

lemma example_broken_eq:
  "example_broken =
     \<lparr>RunState = Running, Logger = [], remoteAddr = ''10.0.0.1:4000'',
      baseConn = \<lparr>RemoteAddr = ''10.0.0.1:4000'', conn_readLimit = 0,
                    SetReadDeadline_err = None, SetWriteDeadline_err = None,
                    WriteMessage_err = Some (ErrorsNew ''broken pipe''), written = []\<rparr>,
      writeChan = Some \<lparr>cap = 1, buf = [], recv_parked = False\<rparr>,
      readRoutineQuit = False,
      funcMap = example_funcMap, writeChanCapacity = 1,
      writeWait = defaultWSWriteWait, readWait = defaultWSReadWait,
      pingPeriod = defaultWSPingPeriod, readLimit = 0,
      onDisconnect = Some 7, ctx = None, disconnected = [], readRoutines = 1\<rparr>"
  by (simp add: example_broken_def example_started_eq example_Conn_def)

lemma example_broken_park: "park False example_broken = example_broken"
  by (simp add: park_def example_broken_eq)

lemma example_broken_write:
  "fst (writeMessageWithDeadline t msg example_broken) = Some (ErrorsNew ''broken pipe'')"
  by (simp add: writeMessageWithDeadline_def example_broken_eq)

text \<open>
  The theorem at a socket whose writes fail, with a pong to relay and a tick pending:
  the first turn draws the pong case, logs and goes on; the second has only the ping
  ticker ready, logs and returns; the third draw is never used.
\<close>

theorem C4_pong_failure_goes_on_ping_failure_ends_witness:
  "writeRoutine example_mar [0, 1, 0] NotDone example_broken example_writer
     = (Exited,
        example_broken\<lparr>Logger := [(Info, ''Failed to write pong (client may disconnect)''),
                                   (Err, ''Failed to write ping'')]\<rparr>,
        \<lparr>pongs = None, tick = False\<rparr>)"
proof -
  let ?e = "ErrorsNew ''broken pipe''"
  let ?w1 = "log Info ''Failed to write pong (client may disconnect)'' example_broken"
  let ?wr1 = "example_writer\<lparr>pongs := None\<rparr>"
  have s0: "writeRoutine_select 0 NotDone example_broken example_writer = Some PongsCase"
    by (simp add: writeRoutine_select_def go_select_def example_writer_def can_recv_def
        example_broken_eq)
  have p0: "pongs example_writer = Some ''p''" by (simp add: example_writer_def)
  from C4_pong_failure_goes_on_ping_failure_ends
         [of example_writer "''p''" example_broken ?e example_mar 0 NotDone "[1, 0]"]
       s0 p0 example_broken_write [of PongMessage "''p''"]
  have a: "writeRoutine example_mar [0, 1, 0] NotDone example_broken example_writer
             = writeRoutine example_mar [1, 0] NotDone ?w1 ?wr1"
    by (simp only: example_broken_park)
  have w1: "?w1 = example_broken\<lparr>Logger := [(Info, ''Failed to write pong (client may disconnect)'')]\<rparr>"
    by (simp add: log_def example_broken_eq)
  have s1: "writeRoutine_select 1 NotDone ?w1 ?wr1 = Some PingTickerCase"
    by (simp add: writeRoutine_select_def go_select_def example_writer_def can_recv_def
        log_def example_broken_eq)
  have f1: "fst (writeMessageWithDeadline PingMessage [] ?w1) = Some ?e"
    by (simp add: writeMessageWithDeadline_def log_def example_broken_eq)
  have pk: "park False ?w1 = ?w1"
    by (simp add: park_def log_def example_broken_eq)
  from C4_pong_failure_goes_on_ping_failure_ends
         [of ?wr1 "''p''" ?w1 ?e example_mar 1 NotDone "[0]"] s1 f1
  have b: "writeRoutine example_mar [1, 0] NotDone ?w1 ?wr1
             = (Exited, log Err ''Failed to write ping'' ?w1, ?wr1\<lparr>tick := False\<rparr>)"
    by (simp only: pk)
  have c: "log Err ''Failed to write ping'' ?w1
             = example_broken\<lparr>Logger := [(Info, ''Failed to write pong (client may disconnect)''),
                                        (Err, ''Failed to write ping'')]\<rparr>"
    by (simp add: log_def example_broken_eq)
  have d: "?wr1\<lparr>tick := False\<rparr> = \<lparr>pongs = None, tick = False\<rparr>"
    by (simp add: example_writer_def)
  from a b c d show ?thesis by (simp only:)
qed

end
